theory Spec2Isabelle
  imports Main "HOL-Library.AList"
begin

section \<open>The DAP function response cache (BESDapFunctionResponseCache.cc)\<close>

text \<open>
  The development embeds the member functions of
  \<^verbatim>\<open>src/dap/BESDapFunctionResponseCache.cc\<close>: \<open>is_valid\<close>, \<open>get_resource_id\<close>,
  \<open>can_be_cached\<close>, \<open>get_or_cache_dataset\<close>, \<open>load_from_cache\<close>,
  \<open>read_cached_data\<close> and \<open>write_dataset_to_cache\<close>. Strings are byte lists, a C++
  exception is the left summand of a result, a null \<open>DDS *\<close> is \<open>None\<close>, and the
  cache directory with its locks is an explicit state that every function threads.
\<close>

subsection \<open>Constants and exceptions\<close>

definition newline :: char where
  "newline = CHR 0x0A"

definition nul :: char where
  "nul = CHR 0x00"

text \<open>\<open>std::endl\<close> writes a newline (and flushes).\<close>

definition endl :: string where
  "endl = [newline]"

definition DATA_MARK :: string where
  "DATA_MARK = ''--DATA:''"

definition max_cacheable_ce_len :: nat where
  "max_cacheable_ce_len = 4096"

definition max_collisions :: nat where
  "max_collisions = 50"

text \<open>
  The exceptions the file distinguishes: \<open>BESInternalError\<close> (thrown by the file itself),
  \<open>libdap::Error\<close> (the only class \<open>read_cached_data\<close> catches by type) and any other
  exception, which every handler of the file lets through unchanged.
\<close>

datatype exn = BESInternalError string | Error string | Exception string

subsection \<open>Datasets and variables (libdap's DDS and BaseType)\<close>

datatype Type =
    dods_null_c | dods_byte_c | dods_int16_c | dods_uint16_c | dods_int32_c | dods_uint32_c
  | dods_float32_c | dods_float64_c | dods_str_c | dods_url_c | dods_structure_c
  | dods_array_c | dods_sequence_c | dods_grid_c

text \<open>
  A variable: its name, its type tag, the \<open>read_p\<close> and \<open>send_p\<close> flags, the current row
  number (meaningful for a Sequence), its marshalled content and, for a constructor type,
  its member variables.
\<close>

datatype BaseType =
  BaseType (name: string) (type: Type) (read_p: bool) (send_p: bool) (row_number: int)
    (val: string) (d_vars: "BaseType list")

text \<open>
  Modelled from the spec: libdap's \<open>BaseType::set_read_p\<close> and \<open>BaseType::set_send_p\<close> are
  not part of the sources. The spec lists them in the interface of a variable as the
  setters of the "read" and the "to send" mark.
\<close>

fun set_read_p :: "bool \<Rightarrow> BaseType \<Rightarrow> BaseType" where
  "set_read_p state (BaseType n t r s k v ms) = BaseType n t state s k v ms"

fun set_send_p :: "bool \<Rightarrow> BaseType \<Rightarrow> BaseType" where
  "set_send_p state (BaseType n t r s k v ms) = BaseType n t r state k v ms"

text \<open>
  Modelled from the spec: libdap's \<open>Sequence::reset_row_number(bool)\<close> is not part of the
  sources. The spec has it "recursively reset the current row number so that a later
  serialize pass starts from row 0": the row number goes back to \<open>-1\<close>, the position
  before row 0, in the sequence and, when the flag is set, in each of its members that is a
  sequence itself, recursively.
\<close>

fun reset_row_number :: "bool \<Rightarrow> BaseType \<Rightarrow> BaseType" where
  "reset_row_number recur (BaseType n t r s k v ms) =
     BaseType n t r s (- 1) v
       (if recur
        then map (\<lambda>m. if type m = dods_sequence_c then reset_row_number True m else m) ms
        else ms)"

record DDS =
  filename :: string
  dataset_name :: string
  vars :: "BaseType list"

subsection \<open>Resource identifiers\<close>

definition get_resource_id :: "DDS \<Rightarrow> string \<Rightarrow> string" where
  "get_resource_id dds constraint = filename dds @ ''#'' @ constraint"

definition can_be_cached :: "DDS \<Rightarrow> string \<Rightarrow> bool" where
  "can_be_cached dds constraint =
     (length constraint + length (filename dds) \<le> max_cacheable_ce_len)"

subsection \<open>Input streams\<close>

text \<open>
  An input stream over a file: the bytes not yet extracted and the two state bits the code
  depends on.
\<close>

record istream =
  buf :: string
  eofbit :: bool
  failbit :: bool

definition ifstream :: "string \<Rightarrow> istream" where
  "ifstream bytes = \<lparr>buf = bytes, eofbit = False, failbit = False\<rparr>"

text \<open>
  \<open>istream::getline(line, n)\<close>: characters are extracted until the end of the input (eofbit),
  until the next character is the newline (extracted, not stored), or until \<open>n - 1\<close>
  characters are stored (failbit), tested in this order; extracting nothing sets failbit.
  The result is the stored characters and the stream after the call.
\<close>

definition getline :: "nat \<Rightarrow> istream \<Rightarrow> string \<times> istream" where
  "getline n s =
     (if failbit s \<or> eofbit s then ([], s\<lparr>failbit := True\<rparr>)
      else let l = takeWhile (\<lambda>c. c \<noteq> newline) (buf s) in
        if n - 1 < length l
        then (take (n - 1) l, s\<lparr>buf := drop (n - 1) (buf s), failbit := True\<rparr>)
        else if length l < length (buf s)
        then (l, s\<lparr>buf := drop (Suc (length l)) (buf s)\<rparr>)
        else (l, s\<lparr>buf := [], eofbit := True, failbit := (l = [])\<rparr>))"

text \<open>\<open>string::assign(const char *)\<close> copies the buffer up to its first NUL byte.\<close>

definition assign :: "string \<Rightarrow> string" where
  "assign line = takeWhile (\<lambda>c. c \<noteq> nul) line"

text \<open>The text \<open>operator<<\<close> writes for an unsigned integer.\<close>

definition digit_char :: "nat \<Rightarrow> char" where
  "digit_char d = ''0123456789'' ! d"

fun decimal :: "nat \<Rightarrow> string" where
  "decimal n = (if n < 10 then [digit_char n] else decimal (n div 10) @ [digit_char (n mod 10)])"

declare decimal.simps [simp del]

subsection \<open>The collaborators: libdap and the string hash\<close>

text \<open>
  The evaluator, the descriptor writer and parser, the marshallers and \<open>std::hash\<close> belong
  to other libraries; the functions of this file take them as a parameter. Each is a
  function of the arguments the call site passes and returns what it writes or builds, or
  the exception it throws. \<open>eval_function_clauses\<close> stands for \<open>parse_constraint\<close> followed
  by \<open>eval_function_clauses\<close> on the local evaluator; \<open>intern_stream\<close> reads the descriptor
  up to and including the boundary line and returns the dataset it built with the stream
  positioned behind it.
\<close>

record collab =
  str_hash :: "string \<Rightarrow> nat"
  eval_function_clauses :: "string \<Rightarrow> DDS \<Rightarrow> exn + DDS"
  print_xml_writer :: "DDS \<Rightarrow> exn + string"
  serialize :: "DDS \<Rightarrow> BaseType \<Rightarrow> exn + string"
  intern_stream :: "istream \<Rightarrow> string \<Rightarrow> exn + DDS \<times> istream"
  deserialize :: "BaseType \<Rightarrow> DDS \<Rightarrow> istream \<Rightarrow> exn + BaseType \<times> istream"

subsection \<open>The cache directory and its locks (BESFileLockingCache)\<close>

datatype lock = Shared | Exclusive

record regular_file =
  content :: string
  mtime :: nat
  atime :: nat

text \<open>
  The state every function threads: the configuration (\<open>cache_prefix\<close>, \<open>size_mb\<close>), the
  entry files of the cache directory by name, the total of the accounting record, the locks
  this process holds, the entries other processes hold a lock on, the files outside the
  cache directory (the datasets, for \<open>stat\<close>), the output streams this process has open,
  each with the bytes still in its buffer, the paths on which opening an output stream
  fails, and the time a write stamps on a file.
\<close>

record cache =
  cache_prefix :: string
  size_mb :: nat
  entries :: "(string \<times> regular_file) list"
  cache_info :: nat
  locks :: "(string \<times> lock) list"
  foreign_locks :: "string list"
  disk :: "(string \<times> regular_file) list"
  ostreams :: "(string \<times> string) list"
  unwritable :: "string list"
  clock :: nat

text \<open>\<open>stat(2)\<close>: the entry of that name, else the file of that path outside the cache.\<close>

definition stat :: "cache \<Rightarrow> string \<Rightarrow> regular_file option" where
  "stat st path =
     (case map_of (entries st) path of Some f \<Rightarrow> Some f | None \<Rightarrow> map_of (disk st) path)"

text \<open>
  Modelled from the spec: \<open>BESFileLockingCache::get_cache_file_name\<close> is not part of the
  sources. "\<open>base_name(rid) = prefix \<oplus> decimal(hash(rid))\<close>"; the argument is the decimal
  hash already.
\<close>

definition get_cache_file_name :: "cache \<Rightarrow> string \<Rightarrow> string" where
  "get_cache_file_name st src = cache_prefix st @ src"

text \<open>
  Modelled from the spec: \<open>BESFileLockingCache::get_read_lock\<close> is not part of the sources.
  "If the file does not exist, returns held=false without error. If it exists, blocks until
  a shared lock is obtained": the state is the one in which the lock has been granted.
\<close>

definition get_read_lock :: "string \<Rightarrow> cache \<Rightarrow> bool \<times> cache" where
  "get_read_lock target st =
     (case map_of (entries st) target of
        None \<Rightarrow> (False, st)
      | Some f \<Rightarrow> (True, st\<lparr>locks := AList.update target Shared (locks st)\<rparr>))"

text \<open>
  Modelled from the spec: \<open>BESFileLockingCache::create_and_lock\<close> is not part of the
  sources. "Atomically creates a new file with exclusive lock. If the file already exists at
  creation time, returns false without error. On success the caller holds the exclusive lock
  and the file is empty."
\<close>

definition create_and_lock :: "string \<Rightarrow> cache \<Rightarrow> bool \<times> cache" where
  "create_and_lock target st =
     (case map_of (entries st) target of
        Some f \<Rightarrow> (False, st)
      | None \<Rightarrow>
          (True, st\<lparr>entries := AList.update target
                                \<lparr>content = [], mtime = clock st, atime = clock st\<rparr> (entries st),
                     locks := AList.update target Exclusive (locks st)\<rparr>))"

text \<open>
  Modelled from the spec: \<open>BESFileLockingCache::exclusive_to_shared_lock\<close> is not part of
  the sources. "Downgrades without releasing." The descriptor the source passes is the one
  \<open>create_and_lock\<close> returned for the file, so the model names the file.
\<close>

definition exclusive_to_shared_lock :: "string \<Rightarrow> cache \<Rightarrow> cache" where
  "exclusive_to_shared_lock target st =
     (case map_of (locks st) target of
        None \<Rightarrow> st
      | Some l \<Rightarrow> st\<lparr>locks := AList.update target Shared (locks st)\<rparr>)"

text \<open>
  Modelled from the spec: \<open>BESFileLockingCache::unlock_and_close\<close> is not part of the
  sources. "Releases whatever lock is held on the file under name and closes the
  descriptor. Idempotent."
\<close>

definition unlock_and_close :: "string \<Rightarrow> cache \<Rightarrow> cache" where
  "unlock_and_close target st = st\<lparr>locks := AList.delete target (locks st)\<rparr>"

text \<open>
  Modelled from the spec: \<open>BESFileLockingCache::update_cache_info\<close> is not part of the
  sources. "Stats name, adds its current size to the recorded total, writes the new total
  back, returns it."
\<close>

definition update_cache_info :: "string \<Rightarrow> cache \<Rightarrow> nat \<times> cache" where
  "update_cache_info target st =
     (let sum_size = cache_info st +
                  (case map_of (entries st) target of None \<Rightarrow> 0 | Some f \<Rightarrow> length (content f))
      in (sum_size, st\<lparr>cache_info := sum_size\<rparr>))"

text \<open>
  Modelled from the spec: \<open>BESFileLockingCache::cache_too_big\<close> is not part of the
  sources. "True iff \<open>total > size_mb \<times> 2\<^sup>2\<^sup>0\<close>."
\<close>

definition cache_too_big :: "cache \<Rightarrow> nat \<Rightarrow> bool" where
  "cache_too_big st sum_size = (size_mb st * 2 ^ 20 < sum_size)"

text \<open>
  Modelled from the spec: \<open>BESFileLockingCache::update_and_purge\<close> is not part of the
  sources. "Enumerate all entries, sort by access time ascending, delete entries one at a
  time (skipping exempt_name and any entry whose lock cannot be taken exclusively
  non-blockingly) until recorded total \<le> (size_mb \<times> folding factor, e.g. 80%). Each
  successful delete decrements the total; the accounting record is rewritten at the end."
\<close>

fun purge_victims ::
  "string \<Rightarrow> string list \<Rightarrow> nat \<Rightarrow> (string \<times> regular_file) list \<Rightarrow> nat \<times> (string \<times> regular_file) list
     \<Rightarrow> nat \<times> (string \<times> regular_file) list" where
  "purge_victims exempt busy target [] (sum_size, es) = (sum_size, es)"
| "purge_victims exempt busy target ((n, f) # vs) (sum_size, es) =
     (if sum_size \<le> target then (sum_size, es)
      else if n = exempt \<or> n \<in> set busy then purge_victims exempt busy target vs (sum_size, es)
      else purge_victims exempt busy target vs (sum_size - length (content f), AList.delete n es))"

definition update_and_purge :: "string \<Rightarrow> cache \<Rightarrow> cache" where
  "update_and_purge exempt st =
     (let (sum_size, es) =
            purge_victims exempt (foreign_locks st) (size_mb st * 2 ^ 20 * 8 div 10)
              (sort_key (\<lambda>e. atime (snd e)) (entries st)) (cache_info st, entries st)
      in st\<lparr>entries := es, cache_info := sum_size\<rparr>)"

text \<open>
  Modelled from the spec: \<open>BESFileLockingCache::purge_file\<close> is not part of the sources.
  "Best-effort unlink; used for cleanup after a failed write."
\<close>

definition purge_file :: "string \<Rightarrow> cache \<Rightarrow> cache" where
  "purge_file target st = st\<lparr>entries := AList.delete target (entries st)\<rparr>"

subsection \<open>Output streams\<close>

text \<open>
  \<open>std::ofstream(path)\<close> opens the file for writing and truncates it; \<open>None\<close> is a stream
  for which \<open>is_open()\<close> is false. What \<open>operator<<\<close> writes stays in the buffer of the
  stream; it reaches the file, and stamps it, when the stream is flushed: by \<open>std::endl\<close>,
  by \<open>close()\<close> and by the destructor. The buffer is taken to hold whatever is written
  between two flushes.
\<close>

definition ofstream :: "string \<Rightarrow> cache \<Rightarrow> cache option" where
  "ofstream path st =
     (if path \<in> set (unwritable st) then None
      else Some (st\<lparr>entries := AList.update path
                                 \<lparr>content = [], mtime = clock st,
                                  atime = (case map_of (entries st) path of
                                             None \<Rightarrow> clock st | Some f \<Rightarrow> atime f)\<rparr>
                                 (entries st),
                      ostreams := AList.update path [] (ostreams st)\<rparr>))"

definition ostream_write :: "string \<Rightarrow> string \<Rightarrow> cache \<Rightarrow> cache" where
  "ostream_write path bytes st =
     (case map_of (ostreams st) path of
        None \<Rightarrow> st
      | Some pending \<Rightarrow> st\<lparr>ostreams := AList.update path (pending @ bytes) (ostreams st)\<rparr>)"

definition ostream_flush :: "string \<Rightarrow> cache \<Rightarrow> cache" where
  "ostream_flush path st =
     (case map_of (ostreams st) path of
        None \<Rightarrow> st
      | Some pending \<Rightarrow>
          if pending = [] then st
          else (case map_of (entries st) path of
                  None \<Rightarrow> st\<lparr>ostreams := AList.update path [] (ostreams st)\<rparr>
                | Some f \<Rightarrow>
                    st\<lparr>entries := AList.update path
                                     (f\<lparr>content := content f @ pending, mtime := clock st\<rparr>)
                                     (entries st),
                        ostreams := AList.update path [] (ostreams st)\<rparr>))"

text \<open>\<open>stream << std::endl\<close>: a newline, then a flush.\<close>

definition ostream_endl :: "string \<Rightarrow> cache \<Rightarrow> cache" where
  "ostream_endl path st = ostream_flush path (ostream_write path endl st)"

text \<open>\<open>close()\<close>, and the destructor of a stream that is still open: a flush, then the end
  of the stream.\<close>

definition ostream_close :: "string \<Rightarrow> cache \<Rightarrow> cache" where
  "ostream_close path st =
     (let st1 = ostream_flush path st in st1\<lparr>ostreams := AList.delete path (ostreams st1)\<rparr>)"

subsection \<open>is_valid\<close>

definition is_valid :: "cache \<Rightarrow> string \<Rightarrow> string \<Rightarrow> bool" where
  "is_valid st cache_file_name dataset =
     (case stat st cache_file_name of
        None \<Rightarrow> False
      | Some entry \<Rightarrow>
          if length (content entry) = 0 then False
          else let dataset_time = (case stat st dataset of
                                     Some d \<Rightarrow> mtime d
                                   | None \<Rightarrow> mtime entry)
               in if mtime entry < dataset_time then False else True)"

subsection \<open>read_cached_data\<close>

fun deserialize_vars ::
  "collab \<Rightarrow> DDS \<Rightarrow> BaseType list \<Rightarrow> istream \<Rightarrow> exn + BaseType list \<times> istream" where
  "deserialize_vars K fdds [] um = Inr ([], um)"
| "deserialize_vars K fdds (v # vs) um =
     (case deserialize K v fdds um of
        Inl e \<Rightarrow> Inl e
      | Inr (v', um') \<Rightarrow>
          (case deserialize_vars K fdds vs um' of
             Inl e \<Rightarrow> Inl e
           | Inr (vs', um'') \<Rightarrow> Inr (v' # vs', um'')))"

text \<open>The body of the second loop: mark as read and to send, reset a Sequence.\<close>

definition mark_read_and_send :: "BaseType \<Rightarrow> BaseType" where
  "mark_read_and_send v =
     (let v1 = set_read_p True v;
          v2 = set_send_p True v1
      in if type v2 = dods_sequence_c then reset_row_number True v2 else v2)"

definition read_cached_data :: "collab \<Rightarrow> istream \<Rightarrow> exn + DDS" where
  "read_cached_data K cached_data =
     (case intern_stream K cached_data DATA_MARK of
        Inl (Error msg) \<Rightarrow> Inl (BESInternalError msg)
      | Inl e \<Rightarrow> Inl e
      | Inr (fdds, um) \<Rightarrow>
          (case deserialize_vars K fdds (vars fdds) um of
             Inl e \<Rightarrow> Inl e
           | Inr (vs, um') \<Rightarrow> Inr (fdds\<lparr>vars := map mark_read_and_send vs\<rparr>)))"

subsection \<open>load_from_cache\<close>

definition quote :: string where
  "quote = [CHR 0x27]"

definition collisions_message :: "nat \<Rightarrow> string \<Rightarrow> string" where
  "collisions_message suffix_counter resource_id =
     ''Cache error! There are '' @ decimal suffix_counter @
     '' hash collisions for the resource '' @ quote @ resource_id @ quote @
     '' And that is a bad bad thing.''"

text \<open>The candidate name the loop builds for a suffix.\<close>

definition cfname :: "string \<Rightarrow> nat \<Rightarrow> string" where
  "cfname cache_file_name suffix_counter = cache_file_name @ ''_'' @ decimal suffix_counter"

text \<open>
  \<open>std::ifstream(path)\<close>: a stream over the bytes of the file; over a file that is not
  there, a stream that did not open (failbit).
\<close>

definition ifstream_open :: "cache \<Rightarrow> string \<Rightarrow> istream" where
  "ifstream_open st path =
     (case map_of (entries st) path of
        None \<Rightarrow> \<lparr>buf = [], eofbit = False, failbit = True\<rparr>
      | Some f \<Rightarrow> ifstream (content f))"

text \<open>
  The do-while loop, started at a suffix. The result is the exception or the dataset
  pointer, the value-result parameter \<open>cache_file_name\<close>, and the state. An exception of
  \<open>read_cached_data\<close> leaves the loop before \<open>unlock_and_close\<close>.
\<close>

function load_loop ::
  "collab \<Rightarrow> string \<Rightarrow> string \<Rightarrow> nat \<Rightarrow> cache \<Rightarrow> (exn + DDS option) \<times> string \<times> cache" where
  "load_loop K resource_id cache_file_name suffix_counter st =
     (if max_collisions < suffix_counter
      then (Inl (BESInternalError (collisions_message suffix_counter resource_id)),
            cache_file_name, st)
      else case get_read_lock (cfname cache_file_name suffix_counter) st of
             (False, st1) \<Rightarrow> (Inr None, cfname cache_file_name suffix_counter, st1)
           | (True, st1) \<Rightarrow>
               (let (line, cache_file_istream) =
                      getline max_cacheable_ce_len
                        (ifstream_open st1 (cfname cache_file_name suffix_counter));
                    cached_resource_id = assign line
                in if cached_resource_id = resource_id
                   then (case read_cached_data K cache_file_istream of
                           Inl e \<Rightarrow> (Inl e, cache_file_name, st1)
                         | Inr cached_dds \<Rightarrow>
                             (Inr (Some cached_dds), cache_file_name,
                              unlock_and_close (cfname cache_file_name suffix_counter) st1))
                   else load_loop K resource_id cache_file_name (Suc suffix_counter)
                          (unlock_and_close (cfname cache_file_name suffix_counter) st1)))"
  by pat_completeness auto
termination
  by (relation "measure (\<lambda>(K, resource_id, cache_file_name, suffix_counter, st).
                           Suc max_collisions - suffix_counter)") auto

declare load_loop.simps [simp del]

definition load_from_cache ::
  "collab \<Rightarrow> string \<Rightarrow> string \<Rightarrow> cache \<Rightarrow> (exn + DDS option) \<times> string \<times> cache" where
  "load_from_cache K resource_id cache_file_name st = load_loop K resource_id cache_file_name 0 st"

subsection \<open>write_dataset_to_cache\<close>

text \<open>The loop over the variables of \<open>dds\<close>: each one marked to send is serialized.\<close>

fun serialize_vars ::
  "collab \<Rightarrow> DDS \<Rightarrow> string \<Rightarrow> BaseType list \<Rightarrow> cache \<Rightarrow> exn option \<times> cache" where
  "serialize_vars K dds path [] st = (None, st)"
| "serialize_vars K dds path (v # vs) st =
     (if send_p v
      then (case serialize K dds v of
              Inl e \<Rightarrow> (Some e, st)
            | Inr bytes \<Rightarrow> serialize_vars K dds path vs (ostream_write path bytes st))
      else serialize_vars K dds path vs st)"

text \<open>
  The \<open>try\<close> block. It writes the identifier line, evaluates the function into \<open>fdds\<close>, then
  writes the descriptor, the mark and the payload of \<open>dds\<close>, downgrades the lock, updates
  the accounting, purges and unlocks. \<open>Inl\<close> is the exception that leaves the block. The
  payload, written after the last \<open>endl\<close>, is still in the buffer of the stream when the
  accounting reads the size of the file.
\<close>

definition do_the_stuff ::
  "collab \<Rightarrow> DDS \<Rightarrow> string \<Rightarrow> string \<Rightarrow> string \<Rightarrow> cache \<Rightarrow> (exn + DDS) \<times> cache" where
  "do_the_stuff K dds resource_id func_ce cache_file_name st =
     (let st1 = ostream_endl cache_file_name (ostream_write cache_file_name resource_id st) in
      case eval_function_clauses K func_ce dds of
        Inl e \<Rightarrow> (Inl e, st1)
      | Inr fdds \<Rightarrow>
          (case print_xml_writer K dds of
             Inl e \<Rightarrow> (Inl e, st1)
           | Inr xml \<Rightarrow>
               (let st2 = ostream_write cache_file_name xml st1;
                    st3 = ostream_endl cache_file_name (ostream_write cache_file_name DATA_MARK st2)
                in case serialize_vars K dds cache_file_name (vars dds) st3 of
                     (Some e, st4) \<Rightarrow> (Inl e, st4)
                   | (None, st4) \<Rightarrow>
                       (let st5 = exclusive_to_shared_lock cache_file_name st4;
                            (size, st6) = update_cache_info cache_file_name st5;
                            st7 = (if cache_too_big st6 size
                                   then update_and_purge cache_file_name st6 else st6)
                        in (Inr fdds, unlock_and_close cache_file_name st7)))))"

definition could_not_open :: "string \<Rightarrow> exn" where
  "could_not_open cache_file_name =
     BESInternalError (''Could not open '' @ quote @ cache_file_name @ quote @
                       '' to write cached response.'')"

text \<open>
  The whole function. The throw for a stream that did not open stands before the \<open>try\<close>
  block; the handler closes the stream, purges the file, unlocks and rethrows; on the way
  out of the block's scope, after \<open>unlock_and_close\<close>, the stream's destructor flushes and
  closes it.
\<close>

definition write_dataset_to_cache ::
  "collab \<Rightarrow> DDS \<Rightarrow> string \<Rightarrow> string \<Rightarrow> string \<Rightarrow> cache \<Rightarrow> (exn + DDS option) \<times> cache" where
  "write_dataset_to_cache K dds resource_id func_ce cache_file_name st =
     (case create_and_lock cache_file_name st of
        (False, st1) \<Rightarrow> (Inr None, st1)
      | (True, st1) \<Rightarrow>
          (case ofstream cache_file_name st1 of
             None \<Rightarrow> (Inl (could_not_open cache_file_name), st1)
           | Some st2 \<Rightarrow>
               (case do_the_stuff K dds resource_id func_ce cache_file_name st2 of
                  (Inr fdds, st3) \<Rightarrow> (Inr (Some fdds), ostream_close cache_file_name st3)
                | (Inl e, st3) \<Rightarrow>
                    (Inl e, unlock_and_close cache_file_name
                              (purge_file cache_file_name
                                 (ostream_close cache_file_name st3))))))"

subsection \<open>get_or_cache_dataset\<close>

text \<open>
  The entry point. Between its three steps other processes may change the cache directory:
  \<open>others1\<close> is what they do between the first probe and the write, \<open>others2\<close> between the
  write and the second probe; \<open>id\<close> is a call that runs undisturbed.
\<close>

definition get_or_cache_dataset ::
  "collab \<Rightarrow> (cache \<Rightarrow> cache) \<Rightarrow> (cache \<Rightarrow> cache) \<Rightarrow> DDS \<Rightarrow> string \<Rightarrow> cache
     \<Rightarrow> (exn + DDS option) \<times> cache" where
  "get_or_cache_dataset K others1 others2 dds constraint st =
     (let resourceId = filename dds @ ''#'' @ constraint;
          hashed_id = decimal (str_hash K resourceId);
          cache_file_name = get_cache_file_name st hashed_id
      in case load_from_cache K resourceId cache_file_name st of
           (Inl e, cache_file_name1, st1) \<Rightarrow> (Inl e, st1)
         | (Inr (Some ret_dds), cache_file_name1, st1) \<Rightarrow>
             (Inr (Some (ret_dds\<lparr>filename := filename dds\<rparr>)), st1)
         | (Inr None, cache_file_name1, st1) \<Rightarrow>
             (case write_dataset_to_cache K dds resourceId constraint cache_file_name1
                     (others1 st1) of
                (Inl e, st2) \<Rightarrow> (Inl e, st2)
              | (Inr (Some ret_dds), st2) \<Rightarrow> (Inr (Some ret_dds), st2)
              | (Inr None, st2) \<Rightarrow>
                  (case load_from_cache K resourceId cache_file_name1 (others2 st2) of
                     (Inl e, cache_file_name2, st3) \<Rightarrow> (Inl e, st3)
                   | (Inr (Some ret_dds), cache_file_name2, st3) \<Rightarrow>
                       (Inr (Some (ret_dds\<lparr>filename := filename dds\<rparr>)), st3)
                   | (Inr None, cache_file_name2, st3) \<Rightarrow> (Inr None, st3))))"

subsection \<open>Sample collaborators and a sample cache\<close>

text \<open>
  To run the functions on concrete inputs, a small instance of the collaborators: the hash
  is the length of the identifier (so identifiers of equal length collide), the evaluator
  returns a fresh dataset with one variable, named after the constraint and holding the
  number of bytes in the dataset, and fails on an empty constraint, the descriptor is one
  line per variable marked to send (a type letter and the name), and a variable is
  marshalled as its bytes followed by a semicolon.
\<close>

definition sample_eval :: "string \<Rightarrow> DDS \<Rightarrow> exn + DDS" where
  "sample_eval ce dds =
     (if ce = [] then Inl (Error ''The constraint expression is empty.'')
      else Inr \<lparr>filename = [], dataset_name = ''function_result_'' @ dataset_name dds,
                vars = [BaseType ce dods_str_c True True (- 1)
                          (decimal (length (concat (map val (vars dds))))) []]\<rparr>)"

definition type_letter :: "Type \<Rightarrow> char" where
  "type_letter t =
     (if t = dods_sequence_c then CHR ''q'' else if t = dods_str_c then CHR ''s''
      else CHR ''b'')"

definition letter_type :: "char \<Rightarrow> Type option" where
  "letter_type c =
     (if c = CHR ''q'' then Some dods_sequence_c else if c = CHR ''s'' then Some dods_str_c
      else if c = CHR ''b'' then Some dods_byte_c else None)"

definition sample_print_xml :: "DDS \<Rightarrow> exn + string" where
  "sample_print_xml dds =
     Inr (concat (map (\<lambda>v. type_letter (type v) # name v @ [newline])
                    (filter send_p (vars dds))))"

fun parse_decls ::
  "string \<Rightarrow> string \<Rightarrow> string \<Rightarrow> BaseType list \<Rightarrow> exn + BaseType list \<times> string" where
  "parse_decls boundary [] cur acc = Inl (Error ''The descriptor has no boundary line.'')"
| "parse_decls boundary (c # cs) cur acc =
     (if c = newline
      then (if cur = boundary then Inr (rev acc, cs)
            else case cur of
                   [] \<Rightarrow> Inl (Error ''Empty declaration.'')
                 | t # n \<Rightarrow>
                     (case letter_type t of
                        None \<Rightarrow> Inl (Error ''Unknown type.'')
                      | Some ty \<Rightarrow>
                          parse_decls boundary cs [] (BaseType n ty False False (- 1) [] [] # acc)))
      else parse_decls boundary cs (cur @ [c]) acc)"

definition sample_intern_stream :: "istream \<Rightarrow> string \<Rightarrow> exn + DDS \<times> istream" where
  "sample_intern_stream s boundary =
     (if failbit s \<or> eofbit s then Inl (Error ''Input stream not open or read error'')
      else case parse_decls boundary (buf s) [] [] of
             Inl e \<Rightarrow> Inl e
           | Inr (vs, rest) \<Rightarrow>
               Inr (\<lparr>filename = [], dataset_name = [], vars = vs\<rparr>, s\<lparr>buf := rest\<rparr>))"

definition sample_serialize :: "DDS \<Rightarrow> BaseType \<Rightarrow> exn + string" where
  "sample_serialize dds v =
     (if CHR '';'' \<in> set (val v) then Inl (Exception ''The bytes cannot be marshalled.'')
      else Inr (val v @ '';''))"

definition sample_deserialize :: "BaseType \<Rightarrow> DDS \<Rightarrow> istream \<Rightarrow> exn + BaseType \<times> istream" where
  "sample_deserialize v fdds um =
     (let x = takeWhile (\<lambda>c. c \<noteq> CHR '';'') (buf um) in
      if length x < length (buf um)
      then Inr (BaseType (name v) (type v) (read_p v) (send_p v)
                  (if type v = dods_sequence_c then int (length x) else row_number v)
                  x (d_vars v),
                um\<lparr>buf := drop (Suc (length x)) (buf um)\<rparr>)
      else Inl (Error ''Short read.''))"

definition sample_collab :: collab where
  "sample_collab =
     \<lparr>str_hash = length, eval_function_clauses = sample_eval,
      print_xml_writer = sample_print_xml, serialize = sample_serialize,
      intern_stream = sample_intern_stream, deserialize = sample_deserialize\<rparr>"

text \<open>
  An empty cache with prefix \<open>rc\<close> and 20 megabytes, beside the dataset file
  \<open>/data/f.nc\<close>, and a dataset over that file with one variable.
\<close>

definition sample_cache :: cache where
  "sample_cache =
     \<lparr>cache_prefix = ''rc'', size_mb = 20, entries = [], cache_info = 0, locks = [],
      foreign_locks = [],
      disk = [(''/data/f.nc'', \<lparr>content = ''netcdf'', mtime = 5, atime = 5\<rparr>)],
      ostreams = [], unwritable = [], clock = 10\<rparr>"

definition sample_dds :: DDS where
  "sample_dds =
     \<lparr>filename = ''/data/f.nc'', dataset_name = ''f'',
      vars = [BaseType ''u'' dods_str_c True True (- 1) ''12'' []]\<rparr>"

subsection \<open>Notions used in the statements\<close>

text \<open>
  What \<open>load_from_cache\<close> reads as the identifier of a file with the given bytes
  (\<open>getline\<close> into \<open>char line[max_cacheable_ce_len]\<close>, then \<open>assign(line)\<close>), and the
  stream it hands to \<open>read_cached_data\<close> afterwards.
\<close>

definition cached_resource_id :: "string \<Rightarrow> string" where
  "cached_resource_id bytes = assign (fst (getline max_cacheable_ce_len (ifstream bytes)))"

definition behind_header :: "string \<Rightarrow> istream" where
  "behind_header bytes = snd (getline max_cacheable_ce_len (ifstream bytes))"

text \<open>
  The bytes an open output stream has taken so far: those of the file followed by those
  still in the buffer.
\<close>

definition stream_bytes :: "cache \<Rightarrow> string \<Rightarrow> string option" where
  "stream_bytes st path =
     (case map_of (entries st) path of
        None \<Rightarrow> None
      | Some f \<Rightarrow> (case map_of (ostreams st) path of
                    None \<Rightarrow> None
                  | Some pending \<Rightarrow> Some (content f @ pending)))"

text \<open>The first line of a file: its bytes up to the first newline.\<close>

definition first_line :: "string \<Rightarrow> string" where
  "first_line bytes = takeWhile (\<lambda>c. c \<noteq> newline) bytes"

text \<open>
  Every candidate with a suffix below \<open>k\<close> exists and carries another identifier.
\<close>

definition mismatches :: "cache \<Rightarrow> string \<Rightarrow> string \<Rightarrow> nat \<Rightarrow> bool" where
  "mismatches st resource_id cache_file_name k =
     (\<forall>j<k. case map_of (entries st) (cfname cache_file_name j) of
               None \<Rightarrow> False
             | Some f \<Rightarrow> cached_resource_id (content f) \<noteq> resource_id)"

text \<open>
  The state after the loop has passed the candidates with a suffix below \<open>k\<close>: each was
  unlocked by \<open>unlock_and_close\<close>.
\<close>

definition released :: "cache \<Rightarrow> string \<Rightarrow> nat \<Rightarrow> cache" where
  "released st cache_file_name k =
     fold (\<lambda>j. unlock_and_close (cfname cache_file_name j)) [0..<k] st"

subsection \<open>Sample entries and caches\<close>

text \<open>
  Two entry files whose identifiers have the same length (and so the same sample hash), the
  dataset the second one decodes to, and caches holding them: one with the foreign entry in
  slot 0, one with both entries, one whose slots 0 to 50 all hold the foreign entry.
\<close>

definition other_entry :: regular_file where
  "other_entry =
     \<lparr>content = ''/data/f.nc#mean(v,0)'' @ endl @ ''sv'' @ endl @ DATA_MARK @ endl @ ''7;'',
      mtime = 8, atime = 8\<rparr>"

definition our_entry :: regular_file where
  "our_entry =
     \<lparr>content = ''/data/f.nc#mean(u,0)'' @ endl @ ''qs'' @ endl @ ''su'' @ endl @
                DATA_MARK @ endl @ ''abc;12;'',
      mtime = 9, atime = 9\<rparr>"

definition our_dds :: DDS where
  "our_dds =
     \<lparr>filename = [], dataset_name = [],
      vars = [BaseType ''s'' dods_sequence_c True True (- 1) ''abc'' [],
              BaseType ''u'' dods_str_c True True (- 1) ''12'' []]\<rparr>"

definition collided_cache :: cache where
  "collided_cache = sample_cache\<lparr>entries := [(''rc20_0'', other_entry)]\<rparr>"

definition two_entries :: cache where
  "two_entries = sample_cache\<lparr>entries := [(''rc20_0'', other_entry), (''rc20_1'', our_entry)]\<rparr>"

definition crowded_cache :: cache where
  "crowded_cache =
     sample_cache\<lparr>entries := map (\<lambda>j. (cfname ''rc20'' j, other_entry)) [0..<51]\<rparr>"

text \<open>
  A dataset whose identifier has 4096 bytes, an entry that carries this identifier as its
  first line, and a cache holding the entry in slot 0 of the identifier's hash.
\<close>

definition long_dds :: DDS where
  "long_dds = \<lparr>filename = replicate 4095 (CHR ''a''), dataset_name = ''a'', vars = []\<rparr>"

definition long_entry :: regular_file where
  "long_entry =
     \<lparr>content = get_resource_id long_dds [] @ endl @ DATA_MARK @ endl, mtime = 9, atime = 9\<rparr>"

definition long_cache :: cache where
  "long_cache = sample_cache\<lparr>entries := [(''rc4096_0'', long_entry)]\<rparr>"

text \<open>
  The results of two successive calls for the sample dataset and the constraint
  \<open>mean(u,0)\<close> on the empty sample cache: the dataset the first call returns, the entry it
  writes and the cache it leaves, the dataset the second call returns, and the cache after
  the dataset file has been touched.
\<close>

definition first_result :: DDS where
  "first_result =
     \<lparr>filename = [], dataset_name = ''function_result_f'',
      vars = [BaseType ''mean(u,0)'' dods_str_c True True (- 1) ''2'' []]\<rparr>"

definition written_entry :: regular_file where
  "written_entry =
     \<lparr>content = ''/data/f.nc#mean(u,0)'' @ endl @ ''su'' @ endl @ DATA_MARK @ endl @ ''12;'',
      mtime = 10, atime = 10\<rparr>"

definition cached_once :: cache where
  "cached_once = sample_cache\<lparr>entries := [(''rc20_0'', written_entry)], cache_info := 32\<rparr>"

definition second_result :: DDS where
  "second_result =
     \<lparr>filename = ''/data/f.nc'', dataset_name = [],
      vars = [BaseType ''u'' dods_str_c True True (- 1) ''12'' []]\<rparr>"

definition touched_cache :: cache where
  "touched_cache =
     cached_once\<lparr>disk := [(''/data/f.nc'', \<lparr>content = ''netcdf'', mtime = 99, atime = 5\<rparr>)]\<rparr>"

text \<open>
  Another process that creates and fills slot 0 for the same identifier, and a cache in
  which an output stream on that slot does not open.
\<close>

definition another_writer :: "cache \<Rightarrow> cache" where
  "another_writer st = st\<lparr>entries := AList.update ''rc20_0'' our_entry (entries st)\<rparr>"

definition unwritable_cache :: cache where
  "unwritable_cache = sample_cache\<lparr>unwritable := [''rc20_0'']\<rparr>"

text \<open>
  An entry whose first line is \<open>f#c\<close>, a NUL byte and \<open>junk\<close>, in slot 0 of the hash of the
  identifier \<open>f#c\<close>.
\<close>

definition nul_entry :: regular_file where
  "nul_entry =
     \<lparr>content = ''f#c'' @ [nul] @ ''junk'' @ endl @ ''su'' @ endl @ DATA_MARK @ endl @ ''12;'',
      mtime = 9, atime = 9\<rparr>"

definition nul_cache :: cache where
  "nul_cache = sample_cache\<lparr>entries := [(''rc3_0'', nul_entry)]\<rparr>"

text \<open>
  An entry whose first line has 4096 bytes, 4095 times \<open>a\<close> and one \<open>b\<close>, in slot 0 of the
  hash of the identifier made of the 4095 \<open>a\<close>.
\<close>

definition long_line_entry :: regular_file where
  "long_line_entry =
     \<lparr>content = replicate 4095 (CHR ''a'') @ ''b'' @ endl @ DATA_MARK @ endl,
      mtime = 9, atime = 9\<rparr>"

definition long_line_cache :: cache where
  "long_line_cache = sample_cache\<lparr>entries := [(''rc4095_0'', long_line_entry)]\<rparr>"

text \<open>
  The cache after one and after two calls for the constraint \<open>a\<close>, newline, \<open>b\<close> on the
  sample dataset, and the dataset those calls return.
\<close>

definition nl_once :: cache where
  "nl_once =
     sample_cache
       \<lparr>entries := [(''rc14_0'',
                     \<lparr>content = ''/data/f.nc#a'' @ endl @ ''b'' @ endl @ ''su'' @ endl @
                                DATA_MARK @ endl @ ''12;'',
                      mtime = 10, atime = 10\<rparr>)],
        cache_info := 26\<rparr>"

definition nl_result :: DDS where
  "nl_result =
     \<lparr>filename = [], dataset_name = ''function_result_f'',
      vars = [BaseType (''a'' @ endl @ ''b'') dods_str_c True True (- 1) ''2'' []]\<rparr>"

definition nl_twice :: cache where
  "nl_twice =
     sample_cache
       \<lparr>entries := [(''rc14_0'',
                     \<lparr>content = ''/data/f.nc#a'' @ endl @ ''b'' @ endl @ ''su'' @ endl @
                                DATA_MARK @ endl @ ''12;'',
                      mtime = 10, atime = 10\<rparr>),
                    (''rc14_1'',
                     \<lparr>content = ''/data/f.nc#a'' @ endl @ ''b'' @ endl @ ''su'' @ endl @
                                DATA_MARK @ endl @ ''12;'',
                      mtime = 10, atime = 10\<rparr>)],
        cache_info := 52\<rparr>"

text \<open>
  Collaborators whose hash sends every identifier to 14, so that all identifiers collide,
  and the cache after one call for the constraint \<open>a\<close>, NUL, \<open>b\<close> on the sample dataset.
\<close>

definition colliding_collab :: collab where
  "colliding_collab = sample_collab\<lparr>str_hash := (\<lambda>s. 14)\<rparr>"

definition nul_result :: DDS where
  "nul_result =
     \<lparr>filename = [], dataset_name = ''function_result_f'',
      vars = [BaseType (''a'' @ [nul] @ ''b'') dods_str_c True True (- 1) ''2'' []]\<rparr>"

definition nul_written_entry :: regular_file where
  "nul_written_entry =
     \<lparr>content = ''/data/f.nc#a'' @ [nul] @ ''b'' @ endl @ ''su'' @ endl @ DATA_MARK @ endl @ ''12;'',
      mtime = 10, atime = 10\<rparr>"

definition nul_written :: cache where
  "nul_written = sample_cache\<lparr>entries := [(''rc14_0'', nul_written_entry)], cache_info := 26\<rparr>"

section \<open>Properties\<close>

subsection \<open>Cacheability and the length of the resource identifier\<close>

lemma length_get_resource_id:
  "length (get_resource_id dds constraint) = length (filename dds) + length constraint + 1"
  by (simp add: get_resource_id_def)

text \<open>
  C2, as stated, fails: \<open>can_be_cached\<close> adds the lengths of the constraint and of the file
  name and leaves the separating \<open>#\<close> out, so an identifier of 4097 bytes is still
  accepted. The dataset below has a file name of 4096 bytes and an empty constraint.
\<close>

theorem can_be_cached_4096_counterexample:
  "\<not> (can_be_cached \<lparr>filename = replicate 4096 (CHR ''a''), dataset_name = [], vars = []\<rparr> []
        \<longleftrightarrow> length (get_resource_id
              \<lparr>filename = replicate 4096 (CHR ''a''), dataset_name = [], vars = []\<rparr> []) \<le> 4096)"
  by (simp add: can_be_cached_def get_resource_id_def max_cacheable_ce_len_def)

text \<open>
  C2, amended: \<open>can_be_cached dds constraint\<close> holds exactly when the file name and the
  constraint together have at most 4096 bytes, that is, when the resource identifier
  \<open>filename # constraint\<close> has at most 4097 bytes.
\<close>

theorem can_be_cached_iff:
  "(can_be_cached dds constraint \<longleftrightarrow> length (filename dds) + length constraint \<le> 4096) \<and>
   (can_be_cached dds constraint \<longleftrightarrow> length (get_resource_id dds constraint) \<le> 4097)"
  by (auto simp add: can_be_cached_def get_resource_id_def max_cacheable_ce_len_def)

subsection \<open>Evaluating the samples\<close>

lemmas stream_defs = getline_def ifstream_def assign_def cached_resource_id_def behind_header_def
  max_cacheable_ce_len_def newline_def nul_def endl_def DATA_MARK_def Let_def

lemma other_header: "cached_resource_id (content other_entry) = ''/data/f.nc#mean(v,0)''"
  by (simp add: other_entry_def stream_defs)

lemma our_header: "cached_resource_id (content our_entry) = ''/data/f.nc#mean(u,0)''"
  by (simp add: our_entry_def stream_defs)

lemmas sample_defs = sample_collab_def sample_eval_def sample_print_xml_def
  sample_intern_stream_def sample_serialize_def sample_deserialize_def type_letter_def letter_type_def

lemma our_read: "read_cached_data sample_collab (behind_header (content our_entry)) = Inr our_dds"
  by (simp add: our_entry_def read_cached_data_def sample_defs stream_defs mark_read_and_send_def our_dds_def)

lemma cfname_small:
  "cfname base 0 = base @ ''_0''" "cfname base 1 = base @ ''_1''"
  "cfname base (Suc 0) = base @ ''_1''"
  by (simp_all add: cfname_def decimal.simps digit_char_def)

lemma first_line_append:
  "newline \<notin> set xs \<Longrightarrow> first_line (xs @ endl @ ys) = xs"
  by (induction xs) (auto simp add: first_line_def endl_def)

subsection \<open>What read_cached_data leaves in the variables\<close>

lemma set_read_p_sel [simp]:
  "name (set_read_p b v) = name v" "type (set_read_p b v) = type v" "read_p (set_read_p b v) = b"
  "send_p (set_read_p b v) = send_p v" "row_number (set_read_p b v) = row_number v"
  by (cases v; simp)+

lemma set_send_p_sel [simp]:
  "name (set_send_p b v) = name v" "type (set_send_p b v) = type v" "read_p (set_send_p b v) = read_p v"
  "send_p (set_send_p b v) = b" "row_number (set_send_p b v) = row_number v"
  by (cases v; simp)+

lemma reset_row_number_sel [simp]:
  "name (reset_row_number b v) = name v" "type (reset_row_number b v) = type v"
  "read_p (reset_row_number b v) = read_p v"
  "send_p (reset_row_number b v) = send_p v" "row_number (reset_row_number b v) = - 1"
  by (cases v; simp)+

lemma reset_row_number_idem: "reset_row_number True (reset_row_number True v) = reset_row_number True v"
proof (induction v)
  case (BaseType n t r s k x ms)
  then show ?case by (auto simp: comp_def intro!: map_cong)
qed

lemma mark_read_and_send_props:
  "read_p (mark_read_and_send v)" "send_p (mark_read_and_send v)"
  "type (mark_read_and_send v) = type v"
  "type v = dods_sequence_c \<Longrightarrow> row_number (mark_read_and_send v) = - 1 \<and> reset_row_number True (mark_read_and_send v) = mark_read_and_send v"
  by (simp_all add: mark_read_and_send_def Let_def reset_row_number_idem)

text \<open>
  C6: in the dataset \<open>read_cached_data\<close> returns, every top-level variable is marked as read
  and as to send, and every top-level variable of type Sequence has its row number reset
  recursively: it is at \<open>-1\<close>, before row 0, and resetting it once more with the recursive
  flag changes nothing.
\<close>

theorem read_cached_data_marks:
  assumes "read_cached_data K cached_data = Inr fdds"
  shows "\<forall>v \<in> set (vars fdds).
           read_p v \<and> send_p v \<and>
           (type v = dods_sequence_c \<longrightarrow>
              row_number v = - 1 \<and> reset_row_number True v = v)"
proof -
  from assms obtain d um vs um' where
    "intern_stream K cached_data DATA_MARK = Inr (d, um)"
    "deserialize_vars K d (vars d) um = Inr (vs, um')"
    "fdds = d\<lparr>vars := map mark_read_and_send vs\<rparr>"
    by (auto simp: read_cached_data_def split: sum.splits exn.splits prod.splits)
  then show ?thesis by (auto simp: mark_read_and_send_props)
qed

text \<open>
  The theorem at a stream with a Sequence and a string variable; the sample unmarshaller
  leaves the Sequence at row 3.
\<close>

theorem read_cached_data_marks_witness:
  "read_cached_data sample_collab (behind_header (content our_entry)) = Inr our_dds \<and>
   vars our_dds = [BaseType ''s'' dods_sequence_c True True (- 1) ''abc'' [],
                   BaseType ''u'' dods_str_c True True (- 1) ''12'' []] \<and>
   read_p (vars our_dds ! 0) \<and> send_p (vars our_dds ! 0) \<and>
   type (vars our_dds ! 0) = dods_sequence_c \<and> row_number (vars our_dds ! 0) = - 1 \<and>
   reset_row_number True (vars our_dds ! 0) = vars our_dds ! 0 \<and>
   read_p (vars our_dds ! 1) \<and> send_p (vars our_dds ! 1)"
proof -
  note all = read_cached_data_marks [OF our_read]
  have v: "vars our_dds = [BaseType ''s'' dods_sequence_c True True (- 1) ''abc'' [],
                           BaseType ''u'' dods_str_c True True (- 1) ''12'' []]"
    by (simp add: our_dds_def)
  have 0: "vars our_dds ! 0 \<in> set (vars our_dds)" and 1: "vars our_dds ! 1 \<in> set (vars our_dds)"
    by (simp_all add: v)
  have t: "type (vars our_dds ! 0) = dods_sequence_c" by (simp add: v)
  from all 0 t have "read_p (vars our_dds ! 0) \<and> send_p (vars our_dds ! 0) \<and>
      row_number (vars our_dds ! 0) = - 1 \<and>
      reset_row_number True (vars our_dds ! 0) = vars our_dds ! 0"
    by blast
  moreover from all 1 have "read_p (vars our_dds ! 1) \<and> send_p (vars our_dds ! 1)"
    by blast
  ultimately show ?thesis using our_read v t by blast
qed

subsection \<open>The probing loop of load_from_cache\<close>

lemma getline_length: "length (fst (getline n s)) \<le> n - 1"
  by (simp add: getline_def Let_def)

lemma assign_length: "length (assign l) \<le> length l"
  by (simp add: assign_def length_takeWhile_le)

lemma cached_resource_id_length: "length (cached_resource_id bytes) \<le> 4095"
proof -
  have "length (cached_resource_id bytes) \<le> length (fst (getline max_cacheable_ce_len (ifstream bytes)))"
    by (simp add: cached_resource_id_def assign_length)
  also have "\<dots> \<le> max_cacheable_ce_len - 1" by (rule getline_length)
  finally show ?thesis by (simp add: max_cacheable_ce_len_def)
qed

lemma entries_unlock_and_close [simp]: "entries (unlock_and_close n st) = entries st"
  by (simp add: unlock_and_close_def)

lemma load_loop_overflow:
  "max_collisions < k \<Longrightarrow>
   load_loop K rid base k st = (Inl (BESInternalError (collisions_message k rid)), base, st)"
  by (subst load_loop.simps) simp

lemma load_loop_miss:
  "k \<le> max_collisions \<Longrightarrow> map_of (entries st) (cfname base k) = None \<Longrightarrow>
   load_loop K rid base k st = (Inr None, cfname base k, st)"
  by (subst load_loop.simps) (simp add: get_read_lock_def)

lemma load_loop_probe:
  "k \<le> max_collisions \<Longrightarrow> map_of (entries st) (cfname base k) = Some f \<Longrightarrow>
   load_loop K rid base k st =
     (if cached_resource_id (content f) = rid
      then (case read_cached_data K (behind_header (content f)) of
              Inl e \<Rightarrow> (Inl e, base, st\<lparr>locks := AList.update (cfname base k) Shared (locks st)\<rparr>)
            | Inr d \<Rightarrow> (Inr (Some d), base, unlock_and_close (cfname base k) st))
      else load_loop K rid base (Suc k) (unlock_and_close (cfname base k) st))"
  by (subst load_loop.simps)
     (simp add: get_read_lock_def ifstream_open_def cached_resource_id_def behind_header_def
        case_prod_beta Let_def unlock_and_close_def AList.delete_update_same split: sum.split)

lemma entries_released [simp]: "entries (released st base k) = entries st"
  by (induction k) (simp_all add: released_def)

lemma released_Suc: "released st base (Suc k) = unlock_and_close (cfname base k) (released st base k)"
  by (simp add: released_def)

lemma load_loop_skip:
  "mismatches st rid base k \<Longrightarrow> k \<le> Suc max_collisions \<Longrightarrow>
   load_loop K rid base 0 st = load_loop K rid base k (released st base k)"
proof (induction k)
  case 0
  then show ?case by (simp add: released_def)
next
  case (Suc k)
  from Suc.prems(1) have m: "mismatches st rid base k"
    and "case map_of (entries st) (cfname base k) of None \<Rightarrow> False
         | Some f \<Rightarrow> cached_resource_id (content f) \<noteq> rid"
    by (simp_all add: mismatches_def)
  then obtain f where f: "map_of (entries st) (cfname base k) = Some f"
    "cached_resource_id (content f) \<noteq> rid"
    by (auto split: option.splits)
  from Suc.prems(2) have k: "k \<le> max_collisions" by simp
  have "load_loop K rid base 0 st = load_loop K rid base k (released st base k)"
    using Suc.IH m k by simp
  also have "\<dots> = load_loop K rid base (Suc k) (unlock_and_close (cfname base k) (released st base k))"
    using load_loop_probe[of k "released st base k" base f K rid] k f by simp
  finally show ?case by (simp add: released_Suc)
qed

lemma load_loop_hit_only:
  "fst (load_loop K rid base i st) = Inr (Some d) \<Longrightarrow>
   \<exists>k f. i \<le> k \<and> k \<le> max_collisions \<and>
     (\<forall>j. i \<le> j \<and> j < k \<longrightarrow>
        (case map_of (entries st) (cfname base j) of None \<Rightarrow> False
         | Some g \<Rightarrow> cached_resource_id (content g) \<noteq> rid)) \<and>
     map_of (entries st) (cfname base k) = Some f \<and>
     cached_resource_id (content f) = rid \<and>
     read_cached_data K (behind_header (content f)) = Inr d"
proof (induction "Suc max_collisions - i" arbitrary: i st)
  case 0
  then have "max_collisions < i" by simp
  with "0.prems" show ?case by (simp add: load_loop_overflow)
next
  case (Suc n)
  then have i: "i \<le> max_collisions" by simp
  show ?case
  proof (cases "map_of (entries st) (cfname base i)")
    case None
    with Suc.prems i show ?thesis by (simp add: load_loop_miss)
  next
    case (Some f)
    show ?thesis
    proof (cases "cached_resource_id (content f) = rid")
      case True
      with Suc.prems i Some have "read_cached_data K (behind_header (content f)) = Inr d"
        by (simp add: load_loop_probe split: sum.splits)
      with True Some i show ?thesis by (intro exI[of _ i] exI[of _ f]) auto
    next
      case False
      with Suc.prems i Some
      have r: "fst (load_loop K rid base (Suc i) (unlock_and_close (cfname base i) st)) = Inr (Some d)"
        by (simp add: load_loop_probe)
      from Suc.hyps(2) have "n = Suc max_collisions - Suc i" by simp
      from Suc.hyps(1)[OF this r] obtain k g where kg:
        "Suc i \<le> k" "k \<le> max_collisions"
        "\<forall>j. Suc i \<le> j \<and> j < k \<longrightarrow>
           (case map_of (entries st) (cfname base j) of None \<Rightarrow> False
            | Some g \<Rightarrow> cached_resource_id (content g) \<noteq> rid)"
        "map_of (entries st) (cfname base k) = Some g"
        "cached_resource_id (content g) = rid"
        "read_cached_data K (behind_header (content g)) = Inr d"
        by auto
      have "\<forall>j. i \<le> j \<and> j < k \<longrightarrow>
           (case map_of (entries st) (cfname base j) of None \<Rightarrow> False
            | Some g \<Rightarrow> cached_resource_id (content g) \<noteq> rid)"
      proof (intro allI impI)
        fix j assume "i \<le> j \<and> j < k"
        then consider "j = i" | "Suc i \<le> j \<and> j < k" by linarith
        then show "case map_of (entries st) (cfname base j) of None \<Rightarrow> False
            | Some g \<Rightarrow> cached_resource_id (content g) \<noteq> rid"
          using Some False kg(3) by cases auto
      qed
      with kg show ?thesis by (intro exI[of _ k] exI[of _ g]) simp
    qed
  qed
qed

lemma locks_released:
  "map_of (locks (released st base k)) n =
     (if n \<in> cfname base ` {..<k} then None else map_of (locks st) n)"
proof (induction k)
  case 0
  then show ?case by (simp add: released_def)
next
  case (Suc k)
  then show ?case
    by (auto simp add: released_Suc unlock_and_close_def AList.delete_conv' lessThan_Suc)
qed

lemma load_loop_entries:
  "entries (snd (snd (load_loop K rid base i st))) = entries st"
proof (induction "Suc max_collisions - i" arbitrary: i st)
  case 0
  then have "max_collisions < i" by simp
  then show ?case by (simp add: load_loop_overflow)
next
  case (Suc n)
  then have i: "i \<le> max_collisions" by simp
  show ?case
  proof (cases "map_of (entries st) (cfname base i)")
    case None
    with i show ?thesis by (simp add: load_loop_miss)
  next
    case (Some f)
    from Suc.hyps(2) have n: "n = Suc max_collisions - Suc i" by simp
    show ?thesis
      using i Some Suc.hyps(1)[OF n, of "unlock_and_close (cfname base i) st"]
      by (simp add: load_loop_probe split: sum.splits)
  qed
qed

lemma load_loop_disk:
  "load_loop K rid base i (st\<lparr>disk := dk\<rparr>) =
     (case load_loop K rid base i st of (r, n, st') \<Rightarrow> (r, n, st'\<lparr>disk := dk\<rparr>))"
proof (induction "Suc max_collisions - i" arbitrary: i st)
  case 0
  then have "max_collisions < i" by simp
  then show ?case by (simp add: load_loop_overflow)
next
  case (Suc n)
  then have i: "i \<le> max_collisions" by simp
  show ?case
  proof (cases "map_of (entries st) (cfname base i)")
    case None
    with i show ?thesis by (simp add: load_loop_miss)
  next
    case (Some f)
    from Suc.hyps(2) have n: "n = Suc max_collisions - Suc i" by simp
    have u: "unlock_and_close (cfname base i) (st\<lparr>disk := dk\<rparr>) =
             (unlock_and_close (cfname base i) st)\<lparr>disk := dk\<rparr>"
      by (simp add: unlock_and_close_def)
    show ?thesis
      using i Some Suc.hyps(1)[OF n, of "unlock_and_close (cfname base i) st"]
      by (simp add: load_loop_probe u split: sum.splits)
  qed
qed

lemma is_valid_iff:
  "is_valid st cache_file_name dataset \<longleftrightarrow>
     (\<exists>e. stat st cache_file_name = Some e \<and> content e \<noteq> [] \<and>
        (\<forall>d. stat st dataset = Some d \<longrightarrow> mtime d \<le> mtime e))"
  by (auto simp add: is_valid_def Let_def not_less split: option.splits)

lemma cached_resource_id_first_line:
  "length (first_line bytes) \<le> 4095 \<Longrightarrow> nul \<notin> set (first_line bytes) \<Longrightarrow>
   cached_resource_id bytes = first_line bytes"
proof -
  assume l: "length (first_line bytes) \<le> 4095" and n: "nul \<notin> set (first_line bytes)"
  have "fst (getline max_cacheable_ce_len (ifstream bytes)) = first_line bytes"
    using l by (simp add: getline_def ifstream_def Let_def first_line_def max_cacheable_ce_len_def)
  moreover have "assign (first_line bytes) = first_line bytes"
    using n by (auto simp add: assign_def takeWhile_eq_all_conv)
  ultimately show ?thesis by (simp add: cached_resource_id_def)
qed

text \<open>
  The probing loop: \<open>load_from_cache\<close> probes the candidates \<open>cache_file_name _ suffix\<close>
  for the suffixes 0, 1, 2, ... in turn. When the candidates below \<open>k\<close> exist with another
  header and candidate \<open>k \<le> 50\<close> does not exist, the result is null and \<open>cache_file_name\<close>
  is that candidate. A dataset is returned only from a candidate whose header, as
  \<open>getline\<close> and \<open>assign\<close> read it, equals the identifier, reached after the candidates
  before it did not match. When the candidates 0 to 50 all fail to match, the internal error
  is thrown with the counter at 51. The lock of every candidate that was passed is released,
  and no entry is changed. The header that is compared is the first line of the file
  whenever that line has at most 4095 bytes and no NUL byte.
\<close>

lemma load_from_cache_probing:
  "(k \<le> max_collisions \<and> mismatches st resource_id cache_file_name k \<and>
    map_of (entries st) (cfname cache_file_name k) = None \<longrightarrow>
      load_from_cache K resource_id cache_file_name st =
        (Inr None, cfname cache_file_name k, released st cache_file_name k)) \<and>
   (fst (load_from_cache K resource_id cache_file_name st) = Inr (Some d) \<longrightarrow>
      (\<exists>k f. k \<le> max_collisions \<and> mismatches st resource_id cache_file_name k \<and>
         map_of (entries st) (cfname cache_file_name k) = Some f \<and>
         cached_resource_id (content f) = resource_id \<and>
         read_cached_data K (behind_header (content f)) = Inr d \<and>
         load_from_cache K resource_id cache_file_name st =
           (Inr (Some d), cache_file_name, released st cache_file_name (Suc k)))) \<and>
   (mismatches st resource_id cache_file_name (Suc max_collisions) \<longrightarrow>
      load_from_cache K resource_id cache_file_name st =
        (Inl (BESInternalError (collisions_message (Suc max_collisions) resource_id)),
         cache_file_name, released st cache_file_name (Suc max_collisions))) \<and>
   entries (released st cache_file_name k) = entries st \<and>
   (\<forall>j<k. map_of (locks (released st cache_file_name k)) (cfname cache_file_name j) = None) \<and>
   (length (first_line bytes) \<le> 4095 \<and> nul \<notin> set (first_line bytes) \<longrightarrow>
      cached_resource_id bytes = first_line bytes)"
proof (intro conjI impI)
  assume a: "k \<le> max_collisions \<and> mismatches st resource_id cache_file_name k \<and>
    map_of (entries st) (cfname cache_file_name k) = None"
  then have "load_from_cache K resource_id cache_file_name st =
      load_loop K resource_id cache_file_name k (released st cache_file_name k)"
    by (simp add: load_from_cache_def load_loop_skip)
  with a show "load_from_cache K resource_id cache_file_name st =
        (Inr None, cfname cache_file_name k, released st cache_file_name k)"
    by (simp add: load_loop_miss)
next
  assume h: "fst (load_from_cache K resource_id cache_file_name st) = Inr (Some d)"
  then obtain k f where kf: "k \<le> max_collisions"
    "mismatches st resource_id cache_file_name k"
    "map_of (entries st) (cfname cache_file_name k) = Some f"
    "cached_resource_id (content f) = resource_id"
    "read_cached_data K (behind_header (content f)) = Inr d"
    using load_loop_hit_only[of K resource_id cache_file_name 0 st d]
    by (auto simp add: load_from_cache_def mismatches_def)
  then have "load_from_cache K resource_id cache_file_name st =
      load_loop K resource_id cache_file_name k (released st cache_file_name k)"
    by (simp add: load_from_cache_def load_loop_skip)
  also have "\<dots> = (Inr (Some d), cache_file_name, released st cache_file_name (Suc k))"
    using kf load_loop_probe[of k "released st cache_file_name k" cache_file_name f K resource_id]
    by (simp add: released_Suc)
  finally show "\<exists>k f. k \<le> max_collisions \<and> mismatches st resource_id cache_file_name k \<and>
         map_of (entries st) (cfname cache_file_name k) = Some f \<and>
         cached_resource_id (content f) = resource_id \<and>
         read_cached_data K (behind_header (content f)) = Inr d \<and>
         load_from_cache K resource_id cache_file_name st =
           (Inr (Some d), cache_file_name, released st cache_file_name (Suc k))"
    using kf by blast
next
  assume m: "mismatches st resource_id cache_file_name (Suc max_collisions)"
  then have "load_from_cache K resource_id cache_file_name st =
      load_loop K resource_id cache_file_name (Suc max_collisions)
        (released st cache_file_name (Suc max_collisions))"
    by (simp add: load_from_cache_def load_loop_skip)
  then show "load_from_cache K resource_id cache_file_name st =
        (Inl (BESInternalError (collisions_message (Suc max_collisions) resource_id)),
         cache_file_name, released st cache_file_name (Suc max_collisions))"
    by (simp add: load_loop_overflow)
next
  show "entries (released st cache_file_name k) = entries st" by simp
next
  show "\<forall>j<k. map_of (locks (released st cache_file_name k)) (cfname cache_file_name j) = None"
    by (simp add: locks_released)
next
  assume "length (first_line bytes) \<le> 4095 \<and> nul \<notin> set (first_line bytes)"
  then show "cached_resource_id bytes = first_line bytes"
    by (simp add: cached_resource_id_first_line)
qed

text \<open>
  The theorem at three caches: a miss behind one foreign entry, a hit in slot 1, and the
  error when slots 0 to 50 are taken.
\<close>

lemma map_of_same_value:
  "j \<in> set js \<Longrightarrow> map_of (map (\<lambda>j. (g j, v)) js) (g j) = Some v"
  by (induction js) auto

lemma crowded_mismatches:
  "mismatches crowded_cache ''/data/f.nc#mean(u,0)'' ''rc20'' (Suc max_collisions)"
  by (simp add: mismatches_def crowded_cache_def map_of_same_value other_header max_collisions_def)

lemma collided_mismatches:
  "mismatches collided_cache ''/data/f.nc#mean(u,0)'' ''rc20'' 1"
  by (simp add: mismatches_def collided_cache_def cfname_small other_header)

lemma two_entries_mismatches:
  "mismatches two_entries ''/data/f.nc#mean(u,0)'' ''rc20'' 1"
  by (simp add: mismatches_def two_entries_def cfname_small other_header)

lemma two_entries_hit:
  "fst (load_from_cache sample_collab ''/data/f.nc#mean(u,0)'' ''rc20'' two_entries) = Inr (Some our_dds)"
proof -
  have "load_from_cache sample_collab ''/data/f.nc#mean(u,0)'' ''rc20'' two_entries =
      load_loop sample_collab ''/data/f.nc#mean(u,0)'' ''rc20'' 1 (released two_entries ''rc20'' 1)"
    using two_entries_mismatches by (simp add: load_from_cache_def load_loop_skip)
  also have "fst \<dots> = Inr (Some our_dds)"
    using load_loop_probe[of 1 "released two_entries ''rc20'' 1" "''rc20''" our_entry sample_collab
         "''/data/f.nc#mean(u,0)''"]
    by (simp add: max_collisions_def two_entries_def cfname_small our_header our_read)
  finally show ?thesis .
qed

lemma load_from_cache_probing_witness:
  "(1 \<le> max_collisions \<and> mismatches collided_cache ''/data/f.nc#mean(u,0)'' ''rc20'' 1 \<and>
    map_of (entries collided_cache) ''rc20_1'' = None) \<and>
   load_from_cache sample_collab ''/data/f.nc#mean(u,0)'' ''rc20'' collided_cache =
     (Inr None, ''rc20_1'', collided_cache) \<and>
   fst (load_from_cache sample_collab ''/data/f.nc#mean(u,0)'' ''rc20'' two_entries) =
     Inr (Some our_dds) \<and>
   (\<exists>k f. k \<le> max_collisions \<and> mismatches two_entries ''/data/f.nc#mean(u,0)'' ''rc20'' k \<and>
      map_of (entries two_entries) (cfname ''rc20'' k) = Some f \<and>
      cached_resource_id (content f) = ''/data/f.nc#mean(u,0)'' \<and>
      read_cached_data sample_collab (behind_header (content f)) = Inr our_dds) \<and>
   mismatches crowded_cache ''/data/f.nc#mean(u,0)'' ''rc20'' 51 \<and>
   fst (load_from_cache sample_collab ''/data/f.nc#mean(u,0)'' ''rc20'' crowded_cache) =
     Inl (BESInternalError (''Cache error! There are 51 hash collisions for the resource '' @ quote @
            ''/data/f.nc#mean(u,0)'' @ quote @ '' And that is a bad bad thing.'')) \<and>
   first_line (content our_entry) = ''/data/f.nc#mean(u,0)'' \<and>
   cached_resource_id (content our_entry) = first_line (content our_entry)"
proof -
  note t = load_from_cache_probing
  have fl: "first_line (content our_entry) = ''/data/f.nc#mean(u,0)''"
    by (simp add: first_line_def our_entry_def endl_def newline_def)
  then have "length (first_line (content our_entry)) \<le> 4095 \<and>
             nul \<notin> set (first_line (content our_entry))"
    by (simp add: nul_def)
  with t[of 1 collided_cache "''/data/f.nc#mean(u,0)''" "''rc20''" sample_collab our_dds
           "content our_entry"]
  have 4: "cached_resource_id (content our_entry) = first_line (content our_entry)"
    by blast
  have a: "1 \<le> max_collisions \<and> mismatches collided_cache ''/data/f.nc#mean(u,0)'' ''rc20'' 1 \<and>
    map_of (entries collided_cache) (cfname ''rc20'' 1) = None"
    using collided_mismatches by (simp add: max_collisions_def collided_cache_def cfname_small)
  have ra: "released collided_cache ''rc20'' 1 = collided_cache"
    by (simp add: released_def unlock_and_close_def collided_cache_def sample_cache_def)
  from t[of 1 collided_cache "''/data/f.nc#mean(u,0)''" "''rc20''" sample_collab our_dds,
         THEN conjunct1] a ra
  have 1: "load_from_cache sample_collab ''/data/f.nc#mean(u,0)'' ''rc20'' collided_cache =
     (Inr None, ''rc20_1'', collided_cache)"
    by (simp add: cfname_small)
  from t[of 1 two_entries "''/data/f.nc#mean(u,0)''" "''rc20''" sample_collab our_dds,
         THEN conjunct2, THEN conjunct1] two_entries_hit
  have 2: "\<exists>k f. k \<le> max_collisions \<and> mismatches two_entries ''/data/f.nc#mean(u,0)'' ''rc20'' k \<and>
      map_of (entries two_entries) (cfname ''rc20'' k) = Some f \<and>
      cached_resource_id (content f) = ''/data/f.nc#mean(u,0)'' \<and>
      read_cached_data sample_collab (behind_header (content f)) = Inr our_dds"
    by blast
  have d51: "decimal 51 = ''51''" by (simp add: decimal.simps digit_char_def)
  from t[of 1 crowded_cache "''/data/f.nc#mean(u,0)''" "''rc20''" sample_collab our_dds,
         THEN conjunct2, THEN conjunct2, THEN conjunct1] crowded_mismatches
  have 3: "fst (load_from_cache sample_collab ''/data/f.nc#mean(u,0)'' ''rc20'' crowded_cache) =
     Inl (BESInternalError (''Cache error! There are 51 hash collisions for the resource '' @ quote @
            ''/data/f.nc#mean(u,0)'' @ quote @ '' And that is a bad bad thing.''))"
    by (simp add: collisions_message_def max_collisions_def d51)
  from a 1 two_entries_hit 2 crowded_mismatches 3 fl 4 show ?thesis
    by (simp add: cfname_small max_collisions_def)
qed

lemma nul_header: "cached_resource_id (content nul_entry) = ''f#c''"
  by (simp add: nul_entry_def stream_defs)

lemma nul_read:
  "read_cached_data sample_collab (behind_header (content nul_entry)) =
     Inr \<lparr>filename = [], dataset_name = [],
          vars = [BaseType ''u'' dods_str_c True True (- 1) ''12'' []]\<rparr>"
  by (simp add: nul_entry_def read_cached_data_def sample_defs stream_defs mark_read_and_send_def)

lemma nul_hit:
  "load_from_cache sample_collab ''f#c'' ''rc3'' nul_cache =
     (Inr (Some \<lparr>filename = [], dataset_name = [],
                  vars = [BaseType ''u'' dods_str_c True True (- 1) ''12'' []]\<rparr>),
      ''rc3'', nul_cache)"
proof -
  have m: "map_of (entries nul_cache) (cfname ''rc3'' 0) = Some nul_entry"
    by (simp add: nul_cache_def cfname_small)
  have u: "unlock_and_close (cfname ''rc3'' 0) nul_cache = nul_cache"
    by (simp add: unlock_and_close_def nul_cache_def sample_cache_def)
  show ?thesis
    using load_loop_probe[of 0 nul_cache "''rc3''" nul_entry sample_collab "''f#c''", OF _ m]
    by (simp add: load_from_cache_def nul_header nul_read u)
qed

lemma takeWhile_replicate_append:
  "P a \<Longrightarrow> takeWhile P (replicate n a @ xs) = replicate n a @ takeWhile P xs"
  by (induction n) simp_all

lemma long_line_first: "first_line (content long_line_entry) = replicate 4095 (CHR ''a'') @ ''b''"
  by (simp add: first_line_def long_line_entry_def takeWhile_replicate_append newline_def endl_def)

lemma long_line_getline:
  "getline max_cacheable_ce_len (ifstream (content long_line_entry)) =
     (replicate 4095 (CHR ''a''),
      \<lparr>buf = ''b'' @ endl @ DATA_MARK @ endl, eofbit = False, failbit = True\<rparr>)"
  by (simp add: getline_def ifstream_def Let_def long_line_entry_def takeWhile_replicate_append
        newline_def endl_def max_cacheable_ce_len_def)

lemma long_line_header: "cached_resource_id (content long_line_entry) = replicate 4095 (CHR ''a'')"
  by (simp add: cached_resource_id_def long_line_getline assign_def nul_def takeWhile_eq_all_conv)

lemma long_line_read:
  "read_cached_data sample_collab (behind_header (content long_line_entry)) =
     Inl (BESInternalError ''Input stream not open or read error'')"
  by (simp add: behind_header_def long_line_getline read_cached_data_def sample_collab_def
        sample_intern_stream_def)

lemma long_line_throw:
  "load_from_cache sample_collab (replicate 4095 (CHR ''a'')) ''rc4095'' long_line_cache =
     (Inl (BESInternalError ''Input stream not open or read error''), ''rc4095'',
      long_line_cache\<lparr>locks := [(''rc4095_0'', Shared)]\<rparr>)"
proof -
  have m: "map_of (entries long_line_cache) (cfname ''rc4095'' 0) = Some long_line_entry"
    by (simp add: long_line_cache_def cfname_small)
  show ?thesis
    using load_loop_probe[of 0 long_line_cache "''rc4095''" long_line_entry sample_collab
            "replicate 4095 (CHR ''a'')", OF _ m]
    by (simp add: load_from_cache_def long_line_header long_line_read cfname_small
          long_line_cache_def sample_cache_def)
qed

text \<open>
  C4: the loop probes the candidates as the claim says, but what it compares with the
  identifier is not the first line of the candidate, although the comment in the code says
  that the first line of the cache file is read and matched against the resource id:
  \<open>getline\<close> stores at most 4095 bytes of the line and \<open>assign\<close> cuts them at the first NUL
  byte. The entry whose first line is \<open>f#c\<close>, a NUL byte and \<open>junk\<close> is returned as a hit
  for the identifier \<open>f#c\<close>. The entry whose first line has 4096 bytes is taken as a match
  for the identifier made of its first 4095 bytes; the stream is then in the failed state,
  reading the dataset throws, and the shared lock on the entry stays held.
\<close>

theorem hit_on_another_first_line:
  "load_from_cache sample_collab ''f#c'' ''rc3'' nul_cache =
     (Inr (Some \<lparr>filename = [], dataset_name = [],
                  vars = [BaseType ''u'' dods_str_c True True (- 1) ''12'' []]\<rparr>),
      ''rc3'', nul_cache) \<and>
   map_of (entries nul_cache) ''rc3_0'' = Some nul_entry \<and>
   first_line (content nul_entry) = ''f#c'' @ [nul] @ ''junk'' \<and>
   first_line (content nul_entry) \<noteq> ''f#c'' \<and>
   load_from_cache sample_collab (replicate 4095 (CHR ''a'')) ''rc4095'' long_line_cache =
     (Inl (BESInternalError ''Input stream not open or read error''), ''rc4095'',
      long_line_cache\<lparr>locks := [(''rc4095_0'', Shared)]\<rparr>) \<and>
   map_of (entries long_line_cache) ''rc4095_0'' = Some long_line_entry \<and>
   first_line (content long_line_entry) = replicate 4095 (CHR ''a'') @ ''b'' \<and>
   first_line (content long_line_entry) \<noteq> replicate 4095 (CHR ''a'')"
proof -
  have "first_line (content nul_entry) = ''f#c'' @ [nul] @ ''junk''"
    by (simp add: first_line_def nul_entry_def nul_def newline_def endl_def)
  moreover have "map_of (entries nul_cache) ''rc3_0'' = Some nul_entry"
    by (simp add: nul_cache_def)
  moreover have "map_of (entries long_line_cache) ''rc4095_0'' = Some long_line_entry"
    by (simp add: long_line_cache_def)
  ultimately show ?thesis
    using nul_hit long_line_throw long_line_first by simp
qed

text \<open>
  C10: the header is read into a buffer of 4096 bytes, so the identifier read from a file has
  at most 4095 bytes; for an identifier of 4096 bytes or more no entry is ever returned as a
  hit, whatever the cache holds; and \<open>can_be_cached\<close> admits identifiers of that length.
\<close>

theorem long_identifier_never_hit:
  "length (cached_resource_id bytes) \<le> 4095 \<and>
   (4096 \<le> length resource_id \<longrightarrow>
      (\<forall>d. fst (load_from_cache K resource_id cache_file_name st) \<noteq> Inr (Some d))) \<and>
   (\<exists>dds constraint. can_be_cached dds constraint \<and>
      4096 \<le> length (get_resource_id dds constraint))"
proof (intro conjI impI allI)
  show "length (cached_resource_id bytes) \<le> 4095" by (rule cached_resource_id_length)
next
  fix d
  assume l: "4096 \<le> length resource_id"
  show "fst (load_from_cache K resource_id cache_file_name st) \<noteq> Inr (Some d)"
  proof
    assume "fst (load_from_cache K resource_id cache_file_name st) = Inr (Some d)"
    then have "fst (load_loop K resource_id cache_file_name 0 st) = Inr (Some d)"
      by (simp add: load_from_cache_def)
    from load_loop_hit_only[OF this]
    obtain f :: regular_file where "cached_resource_id (content f) = resource_id" by blast
    with cached_resource_id_length[of "content f"] l show False by simp
  qed
next
  have "can_be_cached long_dds [] \<and> 4096 \<le> length (get_resource_id long_dds [])"
    by (simp add: can_be_cached_def get_resource_id_def long_dds_def max_cacheable_ce_len_def)
  then show "\<exists>dds constraint. can_be_cached dds constraint \<and>
      4096 \<le> length (get_resource_id dds constraint)"
    by blast
qed

text \<open>
  The theorem at an identifier of 4096 bytes, which \<open>can_be_cached\<close> accepts, and a cache
  whose slot 0 holds an entry with that identifier as its first line.
\<close>

theorem long_identifier_never_hit_witness:
  "can_be_cached long_dds [] \<and>
   4096 \<le> length (get_resource_id long_dds []) \<and>
   get_cache_file_name long_cache (decimal (length (get_resource_id long_dds []))) = ''rc4096'' \<and>
   map_of (entries long_cache) (cfname ''rc4096'' 0) = Some long_entry \<and>
   first_line (content long_entry) = get_resource_id long_dds [] \<and>
   (\<forall>d. fst (load_from_cache sample_collab (get_resource_id long_dds []) ''rc4096'' long_cache)
          \<noteq> Inr (Some d))"
proof -
  have l: "4096 \<le> length (get_resource_id long_dds [])"
    by (simp add: get_resource_id_def long_dds_def)
  have n: "newline \<notin> set (get_resource_id long_dds [])"
    by (simp add: get_resource_id_def long_dds_def newline_def)
  have d: "decimal 4096 = ''4096''" by (simp add: decimal.simps digit_char_def)
  from long_identifier_never_hit
         [of "content long_entry" "get_resource_id long_dds []" sample_collab "''rc4096''" long_cache,
          THEN conjunct2, THEN conjunct1]
       l
  have "\<forall>d. fst (load_from_cache sample_collab (get_resource_id long_dds []) ''rc4096'' long_cache)
          \<noteq> Inr (Some d)"
    by simp
  moreover have "first_line (content long_entry) = get_resource_id long_dds []"
    using n by (simp add: long_entry_def first_line_append)
  moreover have "can_be_cached long_dds []"
    by (simp add: can_be_cached_def long_dds_def max_cacheable_ce_len_def)
  moreover have "get_cache_file_name long_cache (decimal (length (get_resource_id long_dds []))) = ''rc4096''"
    by (simp add: get_cache_file_name_def long_cache_def sample_cache_def get_resource_id_def long_dds_def d)
  moreover have "map_of (entries long_cache) (cfname ''rc4096'' 0) = Some long_entry"
    by (simp add: long_cache_def cfname_small)
  ultimately show ?thesis using l by simp
qed

subsection \<open>What write_dataset_to_cache leaves in the entry\<close>

lemma purge_victims_exempt:
  "map_of (snd (purge_victims exempt busy target vs acc)) exempt = map_of (snd acc) exempt"
proof (induction vs arbitrary: acc)
  case Nil
  then show ?case by (cases acc) simp
next
  case (Cons v vs)
  obtain n f where v: "v = (n, f)" by (cases v)
  obtain t es where acc: "acc = (t, es)" by (cases acc)
  show ?case using Cons.IH by (auto simp add: v acc AList.delete_conv')
qed

lemma update_and_purge_exempt:
  "map_of (entries (update_and_purge exempt st)) exempt = map_of (entries st) exempt"
proof -
  obtain t es where p:
    "purge_victims exempt (foreign_locks st) (size_mb st * 2 ^ 20 * 8 div 10)
       (sort_key (\<lambda>e. atime (snd e)) (entries st)) (cache_info st, entries st) = (t, es)"
    by (cases "purge_victims exempt (foreign_locks st) (size_mb st * 2 ^ 20 * 8 div 10)
       (sort_key (\<lambda>e. atime (snd e)) (entries st)) (cache_info st, entries st)")
  with purge_victims_exempt[of exempt "foreign_locks st" "size_mb st * 2 ^ 20 * 8 div 10"
         "sort_key (\<lambda>e. atime (snd e)) (entries st)" "(cache_info st, entries st)"]
  show ?thesis by (simp add: update_and_purge_def)
qed

lemma ostream_write_bytes:
  "stream_bytes st path = Some bytes \<Longrightarrow>
   stream_bytes (ostream_write path tail_bytes st) path = Some (bytes @ tail_bytes)"
  by (auto simp add: stream_bytes_def ostream_write_def AList.update_conv'
        split: option.splits)

lemma ostream_flush_bytes:
  "stream_bytes st path = Some bytes \<Longrightarrow> stream_bytes (ostream_flush path st) path = Some bytes"
  by (auto simp add: stream_bytes_def ostream_flush_def AList.update_conv'
        split: option.splits)

lemma ostream_endl_bytes:
  "stream_bytes st path = Some bytes \<Longrightarrow>
   stream_bytes (ostream_endl path st) path = Some (bytes @ endl)"
  by (simp add: ostream_endl_def ostream_write_bytes ostream_flush_bytes)

lemma ostream_close_bytes:
  "stream_bytes st path = Some bytes \<Longrightarrow>
   map_option content (map_of (entries (ostream_close path st)) path) = Some bytes"
  by (auto simp add: stream_bytes_def ostream_close_def ostream_flush_def Let_def
        AList.update_conv' split: option.splits)

lemma ofstream_bytes:
  "ofstream path st = Some st' \<Longrightarrow> stream_bytes st' path = Some []"
  by (auto simp add: ofstream_def stream_bytes_def AList.update_conv' split: if_splits)

lemma serialize_vars_bytes:
  "serialize_vars K dds path vs st = (r, st') \<Longrightarrow> stream_bytes st path = Some bytes \<Longrightarrow>
   \<exists>tail_bytes. stream_bytes st' path = Some (bytes @ tail_bytes)"
proof (induction vs arbitrary: st bytes)
  case Nil
  then show ?case by (intro exI[of _ "[]"]) simp
next
  case (Cons v vs)
  show ?case
  proof (cases "send_p v")
    case False
    with Cons show ?thesis by simp
  next
    case True
    show ?thesis
    proof (cases "serialize K dds v")
      case (Inl e)
      with True Cons.prems show ?thesis by (intro exI[of _ "[]"]) auto
    next
      case (Inr b)
      with True Cons.prems(1)
      have r: "serialize_vars K dds path vs (ostream_write path b st) = (r, st')" by simp
      from ostream_write_bytes[OF Cons.prems(2), of b]
      have w: "stream_bytes (ostream_write path b st) path = Some (bytes @ b)" .
      from Cons.IH[OF r w] obtain tail_bytes where
        "stream_bytes st' path = Some ((bytes @ b) @ tail_bytes)" by blast
      then show ?thesis by (intro exI[of _ "b @ tail_bytes"]) simp
    qed
  qed
qed

lemma stream_bytes_frame:
  "map_of (entries st') path = map_of (entries st) path \<Longrightarrow> ostreams st' = ostreams st \<Longrightarrow>
   stream_bytes st' path = stream_bytes st path"
  by (auto simp add: stream_bytes_def split: option.splits)

lemma ostreams_update_and_purge: "ostreams (update_and_purge exempt st) = ostreams st"
  by (simp add: update_and_purge_def Let_def case_prod_beta)

lemma do_the_stuff_bytes:
  assumes "do_the_stuff K dds resource_id func_ce path st = (Inr fdds, st')"
    and "stream_bytes st path = Some []"
  shows "\<exists>tail_bytes. stream_bytes st' path = Some (resource_id @ endl @ tail_bytes)"
proof -
  let ?st1 = "ostream_endl path (ostream_write path resource_id st)"
  from assms(1) obtain f0 where ev: "eval_function_clauses K func_ce dds = Inr f0"
    by (cases "eval_function_clauses K func_ce dds") (simp_all add: do_the_stuff_def Let_def)
  from assms(1) ev obtain xml where xml: "print_xml_writer K dds = Inr xml"
    by (cases "print_xml_writer K dds") (simp_all add: do_the_stuff_def Let_def)
  let ?st2 = "ostream_write path xml ?st1"
  let ?st3 = "ostream_endl path (ostream_write path DATA_MARK ?st2)"
  obtain r st4 where s4: "serialize_vars K dds path (vars dds) ?st3 = (r, st4)"
    by (cases "serialize_vars K dds path (vars dds) ?st3")
  from assms(1) ev xml s4 have r: "r = None"
    by (cases r) (simp_all add: do_the_stuff_def Let_def)
  have e: "map_of (entries st') path = map_of (entries st4) path \<and> ostreams st' = ostreams st4"
    using assms(1) ev xml s4 r
    by (auto simp add: do_the_stuff_def Let_def case_prod_beta unlock_and_close_def
          update_cache_info_def exclusive_to_shared_lock_def update_and_purge_exempt
          ostreams_update_and_purge split: option.splits if_splits)
  have 1: "stream_bytes ?st1 path = Some (resource_id @ endl)"
    using ostream_endl_bytes[OF ostream_write_bytes[OF assms(2), of resource_id]] by simp
  have 3: "stream_bytes ?st3 path = Some (((resource_id @ endl) @ xml) @ DATA_MARK @ endl)"
    using ostream_endl_bytes[OF ostream_write_bytes[OF ostream_write_bytes[OF 1, of xml],
            of DATA_MARK]]
    by simp
  from serialize_vars_bytes[OF s4 3] obtain tail_bytes where
    4: "stream_bytes st4 path =
          Some ((((resource_id @ endl) @ xml) @ DATA_MARK @ endl) @ tail_bytes)" by blast
  from e have "stream_bytes st' path = stream_bytes st4 path"
    by (intro stream_bytes_frame) simp_all
  with 4 show ?thesis
    by (intro exI[of _ "xml @ DATA_MARK @ endl @ tail_bytes"]) simp
qed

lemma write_dataset_to_cache_bytes:
  assumes "write_dataset_to_cache K dds resource_id func_ce cache_file_name st = (Inr (Some fdds), st')"
  shows "\<exists>tail_bytes. map_option content (map_of (entries st') cache_file_name) =
                  Some (resource_id @ endl @ tail_bytes)"
proof -
  from assms obtain st1 st2 st3 where
    c: "create_and_lock cache_file_name st = (True, st1)" and
    o: "ofstream cache_file_name st1 = Some st2" and
    d: "do_the_stuff K dds resource_id func_ce cache_file_name st2 = (Inr fdds, st3)" and
    st': "st' = ostream_close cache_file_name st3"
    by (auto simp add: write_dataset_to_cache_def split: prod.splits bool.splits option.splits sum.splits)
  from do_the_stuff_bytes[OF d ofstream_bytes[OF o]] obtain tail_bytes where
    "stream_bytes st3 cache_file_name = Some (resource_id @ endl @ tail_bytes)" by blast
  from ostream_close_bytes[OF this] show ?thesis by (auto simp add: st')
qed

lemmas write_defs = write_dataset_to_cache_def do_the_stuff_def create_and_lock_def ofstream_def
  ostream_write_def ostream_flush_def ostream_endl_def ostream_close_def
  exclusive_to_shared_lock_def update_cache_info_def
  cache_too_big_def unlock_and_close_def purge_file_def could_not_open_def

lemma decimal_digit: "n < 10 \<Longrightarrow> decimal n = [digit_char n]"
  by (simp add: decimal.simps)

lemma sample_write:
  "write_dataset_to_cache sample_collab sample_dds ''/data/f.nc#mean(u,0)'' ''mean(u,0)'' ''rc20_0''
     sample_cache = (Inr (Some first_result), cached_once)"
  apply (simp add: write_dataset_to_cache_def create_and_lock_def ofstream_def sample_cache_def)
  apply (simp add: do_the_stuff_def Let_def sample_defs sample_dds_def decimal_digit digit_char_def)
  apply (simp add: ostream_endl_def ostream_write_def ostream_flush_def endl_def)
  apply (simp add: exclusive_to_shared_lock_def update_cache_info_def cache_too_big_def
           unlock_and_close_def ostream_close_def ostream_flush_def Let_def)
  apply (simp add: first_result_def cached_once_def written_entry_def sample_cache_def endl_def
           newline_def DATA_MARK_def)
  done

text \<open>
  C5: \<open>write_dataset_to_cache\<close> writes the identifier as it is, followed by a newline, under
  a comment saying that the resource id is written to the first line of the cache file. For
  an identifier that holds a newline the first line of the entry is only the part before
  that newline, and so is not the identifier. Below, the constraint is \<open>a\<close>, a newline,
  \<open>b\<close>: the write succeeds, and the first line of the entry it leaves is
  \<open>/data/f.nc#a\<close>.
\<close>

theorem first_line_newline_counterexample:
  "fst (write_dataset_to_cache sample_collab sample_dds (''/data/f.nc#a'' @ endl @ ''b'')
          (''a'' @ endl @ ''b'') ''rc14_0'' sample_cache) =
     Inr (Some \<lparr>filename = [], dataset_name = ''function_result_f'',
                 vars = [BaseType (''a'' @ endl @ ''b'') dods_str_c True True (- 1) ''2'' []]\<rparr>) \<and>
   map_option (first_line \<circ> content)
     (map_of (entries (snd (write_dataset_to_cache sample_collab sample_dds
                              (''/data/f.nc#a'' @ endl @ ''b'') (''a'' @ endl @ ''b'') ''rc14_0''
                              sample_cache))) ''rc14_0'') = Some ''/data/f.nc#a'' \<and>
   ''/data/f.nc#a'' \<noteq> ''/data/f.nc#a'' @ endl @ ''b''"
  apply (simp add: write_dataset_to_cache_def create_and_lock_def ofstream_def sample_cache_def)
  apply (simp add: do_the_stuff_def Let_def sample_defs sample_dds_def decimal_digit digit_char_def)
  apply (simp add: ostream_endl_def ostream_write_def ostream_flush_def endl_def)
  apply (simp add: exclusive_to_shared_lock_def update_cache_info_def cache_too_big_def
           unlock_and_close_def ostream_close_def ostream_flush_def Let_def)
  apply (simp add: first_line_def endl_def newline_def DATA_MARK_def)
  done

text \<open>
  For every identifier, after a successful write by \<open>write_dataset_to_cache\<close> the entry
  file begins with the resource identifier followed by a newline, written before anything
  else; its first line equals the identifier whenever the identifier holds no newline.
\<close>

lemma written_entry_begins_with_identifier:
  assumes "write_dataset_to_cache K dds resource_id func_ce cache_file_name st =
             (Inr (Some fdds), st')"
  shows "\<exists>f rest. map_of (entries st') cache_file_name = Some f \<and>
           content f = resource_id @ endl @ rest \<and>
           (newline \<notin> set resource_id \<longrightarrow> first_line (content f) = resource_id)"
proof -
  from write_dataset_to_cache_bytes[OF assms] obtain rest f where
    "map_of (entries st') cache_file_name = Some f" "content f = resource_id @ endl @ rest"
    by auto
  then show ?thesis by (auto simp add: first_line_append)
qed

lemma written_entry_begins_with_identifier_witness:
  "write_dataset_to_cache sample_collab sample_dds ''/data/f.nc#mean(u,0)'' ''mean(u,0)'' ''rc20_0''
     sample_cache = (Inr (Some first_result), cached_once) \<and>
   newline \<notin> set ''/data/f.nc#mean(u,0)'' \<and>
   (\<exists>f rest. map_of (entries cached_once) ''rc20_0'' = Some f \<and>
      content f = ''/data/f.nc#mean(u,0)'' @ endl @ rest \<and>
      first_line (content f) = ''/data/f.nc#mean(u,0)'')"
proof -
  have n: "newline \<notin> set ''/data/f.nc#mean(u,0)''" by (simp add: newline_def)
  from written_entry_begins_with_identifier [OF sample_write] n
  show ?thesis using sample_write by blast
qed

subsection \<open>Exceptions in write_dataset_to_cache\<close>

text \<open>
  An exception that leaves the \<open>try\<close> block reaches the handler: the stream is closed, the
  file is gone, the lock is released and the same exception goes on to the caller.
\<close>

lemma handler_cleans_up:
  assumes "create_and_lock cache_file_name st = (True, st1)"
    and "ofstream cache_file_name st1 = Some st2"
    and "do_the_stuff K dds resource_id func_ce cache_file_name st2 = (Inl e, st3)"
  shows "\<exists>st'. write_dataset_to_cache K dds resource_id func_ce cache_file_name st = (Inl e, st') \<and>
           map_of (ostreams st') cache_file_name = None \<and>
           map_of (entries st') cache_file_name = None \<and>
           map_of (locks st') cache_file_name = None"
  using assms
  by (simp add: write_dataset_to_cache_def ostream_close_def Let_def purge_file_def
        unlock_and_close_def AList.delete_conv')

text \<open>
  C3: the throw for a stream that did not open stands between \<open>create_and_lock\<close> and the
  \<open>try\<close> block, so no handler runs for it. In a cache where the output stream on the new
  file does not open, \<open>write_dataset_to_cache\<close> throws with the empty file left in the cache
  and the exclusive lock on it still held.
\<close>

theorem open_failure_leaks_lock:
  "write_dataset_to_cache sample_collab sample_dds ''/data/f.nc#mean(u,0)'' ''mean(u,0)'' ''rc20_0''
     unwritable_cache =
     (Inl (BESInternalError (''Could not open '' @ quote @ ''rc20_0'' @ quote @
                              '' to write cached response.'')),
      unwritable_cache
        \<lparr>entries := [(''rc20_0'', \<lparr>content = [], mtime = 10, atime = 10\<rparr>)],
         locks := [(''rc20_0'', Exclusive)]\<rparr>)"
  by (simp add: write_dataset_to_cache_def create_and_lock_def ofstream_def could_not_open_def
        unwritable_cache_def sample_cache_def)

subsection \<open>Two calls of get_or_cache_dataset\<close>

lemma sample_rid: "get_resource_id sample_dds ''mean(u,0)'' = ''/data/f.nc#mean(u,0)''"
  by (simp add: get_resource_id_def sample_dds_def)

lemma decimal_20: "decimal 20 = ''20''"
  by (simp add: decimal.simps[of 20] decimal_digit digit_char_def)

lemma sample_hash: "str_hash sample_collab ''/data/f.nc#mean(u,0)'' = 20"
  by (simp add: sample_collab_def)

lemma sample_base:
  "get_cache_file_name sample_cache (decimal (str_hash sample_collab ''/data/f.nc#mean(u,0)''))
     = ''rc20''"
  by (simp add: get_cache_file_name_def sample_cache_def sample_hash decimal_20)

lemma sample_miss:
  "load_from_cache sample_collab ''/data/f.nc#mean(u,0)'' ''rc20'' sample_cache =
     (Inr None, ''rc20_0'', sample_cache)"
  by (simp add: load_from_cache_def load_loop_miss max_collisions_def cfname_small sample_cache_def)

lemma get_or_cache_dataset_unfold:
  "get_or_cache_dataset K others1 others2 dds constraint st =
     (case load_from_cache K (get_resource_id dds constraint)
             (get_cache_file_name st (decimal (str_hash K (get_resource_id dds constraint)))) st of
        (Inl e, cache_file_name1, st1) \<Rightarrow> (Inl e, st1)
      | (Inr (Some ret_dds), cache_file_name1, st1) \<Rightarrow>
          (Inr (Some (ret_dds\<lparr>filename := filename dds\<rparr>)), st1)
      | (Inr None, cache_file_name1, st1) \<Rightarrow>
          (case write_dataset_to_cache K dds (get_resource_id dds constraint) constraint
                  cache_file_name1 (others1 st1) of
             (Inl e, st2) \<Rightarrow> (Inl e, st2)
           | (Inr (Some ret_dds), st2) \<Rightarrow> (Inr (Some ret_dds), st2)
           | (Inr None, st2) \<Rightarrow>
               (case load_from_cache K (get_resource_id dds constraint) cache_file_name1
                       (others2 st2) of
                  (Inl e, cache_file_name2, st3) \<Rightarrow> (Inl e, st3)
                | (Inr (Some ret_dds), cache_file_name2, st3) \<Rightarrow>
                    (Inr (Some (ret_dds\<lparr>filename := filename dds\<rparr>)), st3)
                | (Inr None, cache_file_name2, st3) \<Rightarrow> (Inr None, st3))))"
  unfolding get_or_cache_dataset_def get_resource_id_def Let_def ..

lemma sample_first_call:
  "get_or_cache_dataset sample_collab id id sample_dds ''mean(u,0)'' sample_cache =
     (Inr (Some first_result), cached_once)"
  by (simp add: get_or_cache_dataset_unfold sample_rid sample_base sample_miss sample_write)

lemma written_header: "cached_resource_id (content written_entry) = ''/data/f.nc#mean(u,0)''"
  by (simp add: written_entry_def stream_defs)

lemma written_read:
  "read_cached_data sample_collab (behind_header (content written_entry)) =
     Inr (second_result\<lparr>filename := []\<rparr>)"
  by (simp add: written_entry_def read_cached_data_def sample_defs stream_defs
        mark_read_and_send_def second_result_def)

lemma cached_once_hit:
  "load_from_cache sample_collab ''/data/f.nc#mean(u,0)'' ''rc20'' (cached_once\<lparr>disk := dk\<rparr>) =
     (Inr (Some (second_result\<lparr>filename := []\<rparr>)), ''rc20'', cached_once\<lparr>disk := dk\<rparr>)"
proof -
  have m: "map_of (entries (cached_once\<lparr>disk := dk\<rparr>)) (cfname ''rc20'' 0) = Some written_entry"
    by (simp add: cached_once_def cfname_small)
  have u: "unlock_and_close (cfname ''rc20'' 0) (cached_once\<lparr>disk := dk\<rparr>) = cached_once\<lparr>disk := dk\<rparr>"
    by (simp add: unlock_and_close_def cached_once_def sample_cache_def)
  show ?thesis
    using load_loop_probe[of 0 "cached_once\<lparr>disk := dk\<rparr>" "''rc20''" written_entry sample_collab
            "''/data/f.nc#mean(u,0)''", OF _ m]
    by (simp add: load_from_cache_def written_header written_read u)
qed

lemma sample_second_call:
  "get_or_cache_dataset sample_collab id id sample_dds ''mean(u,0)'' (cached_once\<lparr>disk := dk\<rparr>) =
     (Inr (Some second_result), cached_once\<lparr>disk := dk\<rparr>)"
proof -
  have b: "get_cache_file_name (cached_once\<lparr>disk := dk\<rparr>)
     (decimal (str_hash sample_collab ''/data/f.nc#mean(u,0)'')) = ''rc20''"
    by (simp add: get_cache_file_name_def cached_once_def sample_cache_def sample_hash decimal_20)
  show ?thesis
    by (simp add: get_or_cache_dataset_unfold sample_rid b cached_once_hit)
       (simp add: second_result_def sample_dds_def)
qed

text \<open>
  C1: \<open>write_dataset_to_cache\<close> evaluates the function into \<open>fdds\<close> and returns it, but the
  descriptor and the payload it writes are those of \<open>dds\<close>, the dataset the function was
  applied to. The first call returns the function's result (the variable \<open>mean(u,0)\<close>); the
  second call, served from the entry the first one wrote, returns the variable \<open>u\<close> of the
  original dataset.
\<close>

theorem cache_hit_returns_other_dataset:
  "get_or_cache_dataset sample_collab id id sample_dds ''mean(u,0)'' sample_cache =
     (Inr (Some first_result), cached_once) \<and>
   get_or_cache_dataset sample_collab id id sample_dds ''mean(u,0)'' cached_once =
     (Inr (Some second_result), cached_once) \<and>
   eval_function_clauses sample_collab ''mean(u,0)'' sample_dds = Inr first_result \<and>
   vars first_result = [BaseType ''mean(u,0)'' dods_str_c True True (- 1) ''2'' []] \<and>
   vars second_result = [BaseType ''u'' dods_str_c True True (- 1) ''12'' []] \<and>
   vars second_result = map mark_read_and_send (vars sample_dds) \<and>
   vars second_result \<noteq> vars first_result"
proof -
  have "cached_once\<lparr>disk := disk cached_once\<rparr> = cached_once" by simp
  with sample_second_call[of "disk cached_once"]
  have "get_or_cache_dataset sample_collab id id sample_dds ''mean(u,0)'' cached_once =
     (Inr (Some second_result), cached_once)" by simp
  moreover have "eval_function_clauses sample_collab ''mean(u,0)'' sample_dds = Inr first_result"
    by (simp add: sample_defs sample_dds_def first_result_def decimal_digit digit_char_def)
  ultimately show ?thesis
    using sample_first_call
    by (simp add: first_result_def second_result_def sample_dds_def mark_read_and_send_def)
qed

text \<open>
  C8: on the two paths that load an entry the file name of the returned dataset is set to
  the one of \<open>dds\<close>; on the path that writes the entry the evaluator's dataset is returned
  as it is. With an evaluator that builds a fresh dataset, the first call returns a dataset
  with an empty file name, the second one a dataset with the file name of \<open>dds\<close>.
\<close>

theorem written_dataset_keeps_evaluator_filename:
  "fst (get_or_cache_dataset sample_collab id id sample_dds ''mean(u,0)'' sample_cache) =
     Inr (Some first_result) \<and>
   filename first_result = [] \<and>
   filename sample_dds = ''/data/f.nc'' \<and>
   fst (get_or_cache_dataset sample_collab id id sample_dds ''mean(u,0)'' cached_once) =
     Inr (Some second_result) \<and>
   filename second_result = ''/data/f.nc''"
proof -
  have "cached_once\<lparr>disk := disk cached_once\<rparr> = cached_once" by simp
  with sample_second_call[of "disk cached_once"]
  have "get_or_cache_dataset sample_collab id id sample_dds ''mean(u,0)'' cached_once =
     (Inr (Some second_result), cached_once)" by simp
  then show ?thesis using sample_first_call
    by (simp add: first_result_def second_result_def sample_dds_def)
qed

text \<open>
  C7, as stated, fails: \<open>get_or_cache_dataset\<close> and \<open>load_from_cache\<close> never call
  \<open>is_valid\<close>. In the cache below the dataset file is newer than the entry and \<open>is_valid\<close>
  is false for it, yet the call returns the entry's dataset and leaves the entry as it is.
\<close>

theorem stale_entry_counterexample:
  "\<not> is_valid touched_cache ''rc20_0'' ''/data/f.nc'' \<and>
   map_of (entries touched_cache) ''rc20_0'' = Some written_entry \<and>
   get_or_cache_dataset sample_collab id id sample_dds ''mean(u,0)'' touched_cache =
     (Inr (Some second_result), touched_cache)"
proof -
  have "\<not> is_valid touched_cache ''rc20_0'' ''/data/f.nc''"
    by (simp add: is_valid_def stat_def touched_cache_def cached_once_def written_entry_def
          sample_cache_def Let_def)
  moreover have "map_of (entries touched_cache) ''rc20_0'' = Some written_entry"
    by (simp add: touched_cache_def cached_once_def)
  ultimately show ?thesis
    using sample_second_call[of "[(''/data/f.nc'', \<lparr>content = ''netcdf'', mtime = 99, atime = 5\<rparr>)]"]
    by (simp add: touched_cache_def)
qed

text \<open>
  C7, amended: \<open>is_valid\<close> holds exactly for an entry that exists, is not empty and is not
  older than the dataset file (a dataset that \<open>stat\<close> does not find counts as not newer);
  \<open>get_or_cache_dataset\<close> does not consult it: when the probe finds an entry whose header
  matches, the call returns that entry's dataset under the file name of \<open>dds\<close> and changes
  no entry, whatever the files outside the cache and their modification times are.
\<close>

theorem hit_whatever_is_valid_says:
  "(is_valid st cache_file_name dataset \<longleftrightarrow>
      (\<exists>e::regular_file. stat st cache_file_name = Some e \<and> content e \<noteq> [] \<and>
         (\<forall>d::regular_file. stat st dataset = Some d \<longrightarrow> mtime d \<le> mtime e))) \<and>
   (load_from_cache K (get_resource_id dds constraint)
      (get_cache_file_name st (decimal (str_hash K (get_resource_id dds constraint)))) st =
      (Inr (Some x), n, st') \<longrightarrow>
    entries st' = entries st \<and>
    (\<forall>dk. get_or_cache_dataset K others1 others2 dds constraint (st\<lparr>disk := dk\<rparr>) =
            (Inr (Some (x\<lparr>filename := filename dds\<rparr>)), st'\<lparr>disk := dk\<rparr>)))"
proof (intro conjI impI allI)
  show "is_valid st cache_file_name dataset \<longleftrightarrow>
      (\<exists>e::regular_file. stat st cache_file_name = Some e \<and> content e \<noteq> [] \<and>
         (\<forall>d::regular_file. stat st dataset = Some d \<longrightarrow> mtime d \<le> mtime e))"
    by (rule is_valid_iff)
next
  assume h: "load_from_cache K (get_resource_id dds constraint)
      (get_cache_file_name st (decimal (str_hash K (get_resource_id dds constraint)))) st =
      (Inr (Some x), n, st')"
  from load_loop_entries[of K "get_resource_id dds constraint"
      "get_cache_file_name st (decimal (str_hash K (get_resource_id dds constraint)))" 0 st] h
  show "entries st' = entries st" by (simp add: load_from_cache_def)
next
  fix dk
  assume h: "load_from_cache K (get_resource_id dds constraint)
      (get_cache_file_name st (decimal (str_hash K (get_resource_id dds constraint)))) st =
      (Inr (Some x), n, st')"
  have b: "get_cache_file_name (st\<lparr>disk := dk\<rparr>) = get_cache_file_name st"
    by (simp add: get_cache_file_name_def fun_eq_iff)
  from h have "load_from_cache K (get_resource_id dds constraint)
      (get_cache_file_name st (decimal (str_hash K (get_resource_id dds constraint))))
      (st\<lparr>disk := dk\<rparr>) = (Inr (Some x), n, st'\<lparr>disk := dk\<rparr>)"
    by (simp add: load_from_cache_def load_loop_disk)
  then show "get_or_cache_dataset K others1 others2 dds constraint (st\<lparr>disk := dk\<rparr>) =
            (Inr (Some (x\<lparr>filename := filename dds\<rparr>)), st'\<lparr>disk := dk\<rparr>)"
    by (simp add: get_or_cache_dataset_unfold b)
qed

text \<open>The theorem at the cache the first sample call leaves, with the dataset touched.\<close>

theorem hit_whatever_is_valid_says_witness:
  "load_from_cache sample_collab (get_resource_id sample_dds ''mean(u,0)'')
      (get_cache_file_name cached_once
         (decimal (str_hash sample_collab (get_resource_id sample_dds ''mean(u,0)'')))) cached_once =
      (Inr (Some (second_result\<lparr>filename := []\<rparr>)), ''rc20'', cached_once) \<and>
   entries cached_once = [(''rc20_0'', written_entry)] \<and>
   \<not> is_valid touched_cache ''rc20_0'' ''/data/f.nc'' \<and>
   get_or_cache_dataset sample_collab id id sample_dds ''mean(u,0)'' touched_cache =
     (Inr (Some second_result), touched_cache)"
proof -
  have c: "cached_once\<lparr>disk := disk cached_once\<rparr> = cached_once" by simp
  have b: "get_cache_file_name cached_once
         (decimal (str_hash sample_collab ''/data/f.nc#mean(u,0)'')) = ''rc20''"
    by (simp add: get_cache_file_name_def cached_once_def sample_cache_def sample_hash decimal_20)
  have h: "load_from_cache sample_collab (get_resource_id sample_dds ''mean(u,0)'')
      (get_cache_file_name cached_once
         (decimal (str_hash sample_collab (get_resource_id sample_dds ''mean(u,0)'')))) cached_once =
      (Inr (Some (second_result\<lparr>filename := []\<rparr>)), ''rc20'', cached_once)"
    using cached_once_hit[of "disk cached_once"] by (simp add: c sample_rid b)
  have v: "\<not> is_valid touched_cache ''rc20_0'' ''/data/f.nc''"
    by (simp add: is_valid_def stat_def touched_cache_def cached_once_def written_entry_def
          sample_cache_def Let_def)
  from hit_whatever_is_valid_says
         [where st = cached_once and K = sample_collab and dds = sample_dds
            and constraint = "''mean(u,0)''" and x = "second_result\<lparr>filename := []\<rparr>"
            and n = "''rc20''" and st' = cached_once and ?others1.0 = id and ?others2.0 = id,
          THEN conjunct2, rule_format, OF h]
  have "get_or_cache_dataset sample_collab id id sample_dds ''mean(u,0)''
          (cached_once\<lparr>disk := [(''/data/f.nc'', \<lparr>content = ''netcdf'', mtime = 99, atime = 5\<rparr>)]\<rparr>) =
        (Inr (Some (second_result\<lparr>filename := [], filename := filename sample_dds\<rparr>)),
         cached_once\<lparr>disk := [(''/data/f.nc'', \<lparr>content = ''netcdf'', mtime = 99, atime = 5\<rparr>)]\<rparr>)"
    by blast
  then have "get_or_cache_dataset sample_collab id id sample_dds ''mean(u,0)'' touched_cache =
     (Inr (Some second_result), touched_cache)"
    by (simp add: touched_cache_def second_result_def sample_dds_def)
  with h v show ?thesis by (simp add: cached_once_def)
qed

text \<open>
  C9: \<open>get_or_cache_dataset\<close> can return null. When the first probe misses and records a
  slot, another process creates that slot before \<open>create_and_lock\<close> runs, and the second
  probe (which starts from the recorded slot's name) finds no matching entry either, then
  \<open>write_dataset_to_cache\<close> returns null without writing and the call returns null.
\<close>

theorem null_after_lost_race:
  assumes "load_from_cache K (get_resource_id dds constraint)
             (get_cache_file_name st (decimal (str_hash K (get_resource_id dds constraint)))) st =
           (Inr None, slot, st1)"
    and "map_of (entries (others1 st1)) slot \<noteq> None"
    and "fst (load_from_cache K (get_resource_id dds constraint) slot (others2 (others1 st1))) =
           Inr None"
  shows "write_dataset_to_cache K dds (get_resource_id dds constraint) constraint slot (others1 st1) =
           (Inr None, others1 st1) \<and>
         fst (get_or_cache_dataset K others1 others2 dds constraint st) = Inr None"
proof -
  from assms(2) have w: "write_dataset_to_cache K dds (get_resource_id dds constraint) constraint
      slot (others1 st1) = (Inr None, others1 st1)"
    by (auto simp add: write_dataset_to_cache_def create_and_lock_def)
  obtain r n st3 where l: "load_from_cache K (get_resource_id dds constraint) slot
      (others2 (others1 st1)) = (r, n, st3)"
    by (cases "load_from_cache K (get_resource_id dds constraint) slot (others2 (others1 st1))")
  with assms(3) have "r = Inr None" by simp
  with l assms(1) w show ?thesis by (simp add: get_or_cache_dataset_unfold)
qed

text \<open>
  The theorem at the empty sample cache, with another process that fills slot 0 with an
  entry for the very same identifier between the probe and the write: the second probe
  looks for \<open>rc20_0_0\<close>, misses, and the call returns null.
\<close>

theorem null_after_lost_race_witness:
  "load_from_cache sample_collab (get_resource_id sample_dds ''mean(u,0)'')
     (get_cache_file_name sample_cache
        (decimal (str_hash sample_collab (get_resource_id sample_dds ''mean(u,0)'')))) sample_cache =
     (Inr None, ''rc20_0'', sample_cache) \<and>
   map_of (entries (another_writer sample_cache)) ''rc20_0'' = Some our_entry \<and>
   cached_resource_id (content our_entry) = get_resource_id sample_dds ''mean(u,0)'' \<and>
   fst (load_from_cache sample_collab (get_resource_id sample_dds ''mean(u,0)'') ''rc20_0''
          (id (another_writer sample_cache))) = Inr None \<and>
   fst (get_or_cache_dataset sample_collab another_writer id sample_dds ''mean(u,0)'' sample_cache) =
     Inr None"
proof -
  have 1: "load_from_cache sample_collab (get_resource_id sample_dds ''mean(u,0)'')
     (get_cache_file_name sample_cache
        (decimal (str_hash sample_collab (get_resource_id sample_dds ''mean(u,0)'')))) sample_cache =
     (Inr None, ''rc20_0'', sample_cache)"
    by (simp add: sample_rid sample_base sample_miss)
  have 2: "map_of (entries (another_writer sample_cache)) ''rc20_0'' = Some our_entry"
    by (simp add: another_writer_def sample_cache_def)
  then have ne: "map_of (entries (another_writer sample_cache)) ''rc20_0'' \<noteq> None" by simp
  have 3: "fst (load_from_cache sample_collab (get_resource_id sample_dds ''mean(u,0)'') ''rc20_0''
          (id (another_writer sample_cache))) = Inr None"
    by (simp add: load_from_cache_def load_loop_miss max_collisions_def cfname_small
          another_writer_def sample_cache_def)
  from null_after_lost_race
         [where K = sample_collab and dds = sample_dds and constraint = "''mean(u,0)''"
            and st = sample_cache and slot = "''rc20_0''" and ?st1.0 = sample_cache
            and ?others1.0 = another_writer and ?others2.0 = id, OF 1 ne 3]
       1 2 3
  show ?thesis
    by (simp add: our_header sample_rid)
qed

subsection \<open>Entries whose first line is not the identifier\<close>

text \<open>
  An identifier with a newline is never found again. The first call for the constraint
  \<open>a\<close>, newline, \<open>b\<close> writes slot 0; the second call reads the header \<open>/data/f.nc#a\<close> from
  that slot, takes it for a collision, and writes the same entry once more into slot 1.
\<close>

lemma nl_rid: "get_resource_id sample_dds (''a'' @ endl @ ''b'') = ''/data/f.nc#a'' @ endl @ ''b''"
  by (simp add: get_resource_id_def sample_dds_def)

lemma nl_hash: "str_hash sample_collab (''/data/f.nc#a'' @ endl @ ''b'') = 14"
  by (simp add: sample_collab_def endl_def)

lemma decimal_14: "decimal 14 = ''14''"
  by (simp add: decimal.simps digit_char_def)

lemma nl_first_write:
  "write_dataset_to_cache sample_collab sample_dds (''/data/f.nc#a'' @ endl @ ''b'')
     (''a'' @ endl @ ''b'') ''rc14_0'' sample_cache =
   (Inr (Some \<lparr>filename = [], dataset_name = ''function_result_f'',
                vars = [BaseType (''a'' @ endl @ ''b'') dods_str_c True True (- 1) ''2'' []]\<rparr>),
    nl_once)"
  apply (simp add: write_dataset_to_cache_def create_and_lock_def ofstream_def sample_cache_def)
  apply (simp add: do_the_stuff_def Let_def sample_defs sample_dds_def decimal_digit digit_char_def)
  apply (simp add: ostream_endl_def ostream_write_def ostream_flush_def endl_def)
  apply (simp add: exclusive_to_shared_lock_def update_cache_info_def cache_too_big_def
           unlock_and_close_def ostream_close_def ostream_flush_def Let_def)
  apply (simp add: nl_once_def sample_cache_def endl_def newline_def DATA_MARK_def)
  done

lemma nl_second_probe:
  "load_from_cache sample_collab (''/data/f.nc#a'' @ endl @ ''b'') ''rc14'' nl_once =
     (Inr None, ''rc14_1'', nl_once)"
proof -
  have m: "mismatches nl_once (''/data/f.nc#a'' @ endl @ ''b'') ''rc14'' 1"
    by (simp add: mismatches_def nl_once_def cfname_small stream_defs)
  have r: "released nl_once ''rc14'' (Suc 0) = nl_once"
    by (simp add: released_def unlock_and_close_def nl_once_def sample_cache_def)
  have "load_from_cache sample_collab (''/data/f.nc#a'' @ endl @ ''b'') ''rc14'' nl_once =
      load_loop sample_collab (''/data/f.nc#a'' @ endl @ ''b'') ''rc14'' 1 nl_once"
    using load_loop_skip[OF m, of sample_collab] by (simp add: load_from_cache_def r max_collisions_def)
  also have "\<dots> = (Inr None, ''rc14_1'', nl_once)"
    by (simp add: load_loop_miss max_collisions_def cfname_small nl_once_def)
  finally show ?thesis .
qed

lemma nl_second_write:
  "write_dataset_to_cache sample_collab sample_dds (''/data/f.nc#a'' @ endl @ ''b'')
     (''a'' @ endl @ ''b'') ''rc14_1'' nl_once = (Inr (Some nl_result), nl_twice)"
  apply (simp add: write_dataset_to_cache_def create_and_lock_def ofstream_def nl_once_def
           sample_cache_def)
  apply (simp add: do_the_stuff_def Let_def sample_defs sample_dds_def decimal_digit digit_char_def)
  apply (simp add: ostream_endl_def ostream_write_def ostream_flush_def endl_def)
  apply (simp add: exclusive_to_shared_lock_def update_cache_info_def cache_too_big_def
           unlock_and_close_def ostream_close_def ostream_flush_def Let_def)
  apply (simp add: nl_twice_def nl_result_def sample_cache_def endl_def newline_def DATA_MARK_def)
  done

lemma nl_first_probe:
  "load_from_cache sample_collab (''/data/f.nc#a'' @ endl @ ''b'') ''rc14'' sample_cache =
     (Inr None, ''rc14_0'', sample_cache)"
  by (simp add: load_from_cache_def load_loop_miss max_collisions_def cfname_small sample_cache_def)

lemma nl_base:
  "get_cache_file_name sample_cache
     (decimal (str_hash sample_collab (''/data/f.nc#a'' @ endl @ ''b''))) = ''rc14''"
  "get_cache_file_name nl_once
     (decimal (str_hash sample_collab (''/data/f.nc#a'' @ endl @ ''b''))) = ''rc14''"
  by (simp_all only: nl_hash decimal_14)
     (simp_all add: get_cache_file_name_def nl_once_def sample_cache_def)

lemma newline_identifier_written_again:
  "get_or_cache_dataset sample_collab id id sample_dds (''a'' @ endl @ ''b'') sample_cache =
     (Inr (Some nl_result), nl_once) \<and>
   get_or_cache_dataset sample_collab id id sample_dds (''a'' @ endl @ ''b'') nl_once =
     (Inr (Some nl_result), nl_twice) \<and>
   map fst (entries nl_once) = [''rc14_0''] \<and>
   map fst (entries nl_twice) = [''rc14_0'', ''rc14_1'']"
proof -
  have 1: "get_or_cache_dataset sample_collab id id sample_dds (''a'' @ endl @ ''b'') sample_cache =
     (Inr (Some nl_result), nl_once)"
    by (simp only: get_or_cache_dataset_unfold nl_rid nl_base nl_first_probe nl_first_write
          nl_result_def prod.case sum.case option.case id_apply)
  have 2: "get_or_cache_dataset sample_collab id id sample_dds (''a'' @ endl @ ''b'') nl_once =
     (Inr (Some nl_result), nl_twice)"
    by (simp only: get_or_cache_dataset_unfold nl_rid nl_base nl_second_probe nl_second_write
          prod.case sum.case option.case id_apply)
  from 1 2 show ?thesis by (simp add: nl_once_def nl_twice_def)
qed

text \<open>
  An identifier with a NUL byte is found by a request for the part before the NUL. Through
  \<open>get_or_cache_dataset\<close>, the entry with the first line \<open>f#c\<close>, NUL, \<open>junk\<close> answers the
  request for the file \<open>f\<close> and the constraint \<open>c\<close>. And when the hashes of the two
  identifiers collide, the entry that the call for the constraint \<open>a\<close>, NUL, \<open>b\<close> wrote
  answers the call for the constraint \<open>a\<close>.
\<close>

lemma nul_entry_point:
  "fst (get_or_cache_dataset sample_collab id id
          \<lparr>filename = ''f'', dataset_name = ''f'', vars = []\<rparr> ''c'' nul_cache) =
     Inr (Some \<lparr>filename = ''f'', dataset_name = [],
                 vars = [BaseType ''u'' dods_str_c True True (- 1) ''12'' []]\<rparr>)"
proof -
  have r: "get_resource_id \<lparr>filename = ''f'', dataset_name = ''f'', vars = []\<rparr> ''c'' = ''f#c''"
    by (simp add: get_resource_id_def)
  have h: "str_hash sample_collab ''f#c'' = 3" by (simp add: sample_collab_def)
  have b: "get_cache_file_name nul_cache (decimal (str_hash sample_collab ''f#c'')) = ''rc3''"
    by (simp add: get_cache_file_name_def nul_cache_def sample_cache_def h decimal_digit
          digit_char_def)
  show ?thesis by (simp add: get_or_cache_dataset_unfold r b nul_hit)
qed

lemma collision_rid:
  "get_resource_id sample_dds (''a'' @ [nul] @ ''b'') = ''/data/f.nc#a'' @ [nul] @ ''b''"
  "get_resource_id sample_dds ''a'' = ''/data/f.nc#a''"
  by (simp_all add: get_resource_id_def sample_dds_def)

lemma collision_base:
  "get_cache_file_name sample_cache (decimal (str_hash colliding_collab rid)) = ''rc14''"
  "get_cache_file_name nul_written (decimal (str_hash colliding_collab rid)) = ''rc14''"
  by (simp_all add: colliding_collab_def decimal_14)
     (simp_all add: get_cache_file_name_def nul_written_def sample_cache_def)

lemma collision_first_probe:
  "load_from_cache colliding_collab (''/data/f.nc#a'' @ [nul] @ ''b'') ''rc14'' sample_cache =
     (Inr None, ''rc14_0'', sample_cache)"
  by (simp add: load_from_cache_def load_loop_miss max_collisions_def cfname_small sample_cache_def)

lemma collision_write:
  "write_dataset_to_cache colliding_collab sample_dds (''/data/f.nc#a'' @ [nul] @ ''b'')
     (''a'' @ [nul] @ ''b'') ''rc14_0'' sample_cache = (Inr (Some nul_result), nul_written)"
  apply (simp add: write_dataset_to_cache_def create_and_lock_def ofstream_def sample_cache_def)
  apply (simp add: do_the_stuff_def Let_def colliding_collab_def sample_defs sample_dds_def
           decimal_digit digit_char_def)
  apply (simp add: ostream_endl_def ostream_write_def ostream_flush_def endl_def)
  apply (simp add: exclusive_to_shared_lock_def update_cache_info_def cache_too_big_def
           unlock_and_close_def ostream_close_def ostream_flush_def Let_def)
  apply (simp add: nul_result_def nul_written_def nul_written_entry_def sample_cache_def endl_def
           newline_def DATA_MARK_def)
  done

lemma collision_header: "cached_resource_id (content nul_written_entry) = ''/data/f.nc#a''"
  by (simp add: nul_written_entry_def stream_defs)

lemma collision_read:
  "read_cached_data colliding_collab (behind_header (content nul_written_entry)) =
     Inr \<lparr>filename = [], dataset_name = [],
          vars = [BaseType ''u'' dods_str_c True True (- 1) ''12'' []]\<rparr>"
  by (simp add: nul_written_entry_def read_cached_data_def colliding_collab_def sample_defs
        stream_defs mark_read_and_send_def)

lemma collision_hit:
  "load_from_cache colliding_collab ''/data/f.nc#a'' ''rc14'' nul_written =
     (Inr (Some \<lparr>filename = [], dataset_name = [],
                  vars = [BaseType ''u'' dods_str_c True True (- 1) ''12'' []]\<rparr>),
      ''rc14'', nul_written)"
proof -
  have m: "map_of (entries nul_written) (cfname ''rc14'' 0) = Some nul_written_entry"
    by (simp add: nul_written_def cfname_small)
  have u: "unlock_and_close (cfname ''rc14'' 0) nul_written = nul_written"
    by (simp add: unlock_and_close_def nul_written_def sample_cache_def)
  show ?thesis
    using load_loop_probe[of 0 nul_written "''rc14''" nul_written_entry colliding_collab
            "''/data/f.nc#a''", OF _ m]
    by (simp add: load_from_cache_def collision_header collision_read u)
qed

lemma nul_identifier_collision:
  "get_or_cache_dataset colliding_collab id id sample_dds (''a'' @ [nul] @ ''b'') sample_cache =
     (Inr (Some nul_result), nul_written) \<and>
   get_or_cache_dataset colliding_collab id id sample_dds ''a'' nul_written =
     (Inr (Some \<lparr>filename = ''/data/f.nc'', dataset_name = [],
                  vars = [BaseType ''u'' dods_str_c True True (- 1) ''12'' []]\<rparr>), nul_written) \<and>
   map_of (entries nul_written) ''rc14_0'' = Some nul_written_entry \<and>
   first_line (content nul_written_entry) = ''/data/f.nc#a'' @ [nul] @ ''b''"
proof -
  have 1: "get_or_cache_dataset colliding_collab id id sample_dds (''a'' @ [nul] @ ''b'')
             sample_cache = (Inr (Some nul_result), nul_written)"
    by (simp only: get_or_cache_dataset_unfold collision_rid collision_base collision_first_probe
          collision_write prod.case sum.case option.case id_apply)
  have 2: "get_or_cache_dataset colliding_collab id id sample_dds ''a'' nul_written =
     (Inr (Some \<lparr>filename = ''/data/f.nc'', dataset_name = [],
                  vars = [BaseType ''u'' dods_str_c True True (- 1) ''12'' []]\<rparr>), nul_written)"
    by (simp only: get_or_cache_dataset_unfold collision_rid collision_base collision_hit
          prod.case sum.case option.case id_apply)
       (simp add: sample_dds_def)
  have 3: "first_line (content nul_written_entry) = ''/data/f.nc#a'' @ [nul] @ ''b''"
    by (simp add: first_line_def nul_written_entry_def nul_def newline_def endl_def)
  from 1 2 3 show ?thesis by (simp add: nul_written_def)
qed

end
